theory Spec2Isabelle
  imports Complex_Main
begin

section \<open>Values of the host language\<close>

text \<open>
  Strings are lists of code units; the type \<open>char\<close> holds the code units below 256.
  JSON values as \<open>JSON.parse\<close> returns them. Numbers are the integers of the protocol
  (return codes, identifiers, timestamps); an object is its list of properties in
  insertion order, looked up by the first entry of a key.
\<close>

datatype json =
    JNull
  | JBool bool
  | JNum int
  | JStr string
  | JArr "json list"
  | JObj "(string \<times> json) list"

type_synonym obj = "(string \<times> json) list"

text \<open>Property read \<open>o.k\<close> (\<open>None\<close> is \<open>undefined\<close>) and property write \<open>o[k] = v\<close>.\<close>

definition obj_get :: "obj \<Rightarrow> string \<Rightarrow> json option" where
  "obj_get ob k = map_of ob k"

fun obj_set :: "obj \<Rightarrow> string \<Rightarrow> json \<Rightarrow> obj" where
  "obj_set [] k v = [(k, v)]"
| "obj_set ((k', v') # rest) k v =
     (if k' = k then (k, v) # rest else (k', v') # obj_set rest k v)"

text \<open>Object spread \<open>{ ...a, ...b }\<close>: the properties of \<open>b\<close> written over \<open>a\<close> in order.\<close>

definition obj_spread :: "obj \<Rightarrow> obj \<Rightarrow> obj" where
  "obj_spread a b = foldl (\<lambda>acc kv. obj_set acc (fst kv) (snd kv)) a b"

subsection \<open>String primitives\<close>

text \<open>White space as \<open>trim\<close> and the class \<open>\s\<close> see it, among the code units below 256:
  TAB, LF, VT, FF, CR, SPACE and NBSP.\<close>

definition is_ws :: "char \<Rightarrow> bool" where
  "is_ws c = (of_char c \<in> {9, 10, 11, 12, 13, 32, 160 :: nat})"

definition trim :: "string \<Rightarrow> string" where
  "trim s = rev (dropWhile is_ws (rev (dropWhile is_ws s)))"

text \<open>\<open>s.split(sep)\<close> for a separator of one character: never the empty list.\<close>

fun split_on :: "char \<Rightarrow> string \<Rightarrow> string list" where
  "split_on sep [] = [[]]"
| "split_on sep (c # cs) =
     (if c = sep then [] # split_on sep cs
      else (case split_on sep cs of
              [] \<Rightarrow> [[c]]
            | x # xs \<Rightarrow> (c # x) # xs))"

text \<open>\<open>xs.join(sep)\<close>.\<close>

fun join :: "string \<Rightarrow> string list \<Rightarrow> string" where
  "join sep [] = []"
| "join sep [x] = x"
| "join sep (x # y # ys) = x @ sep @ join sep (y # ys)"

text \<open>\<open>s.indexOf(c)\<close>: the first index of \<open>c\<close>, or \<open>-1\<close>.\<close>

fun indexOf :: "string \<Rightarrow> char \<Rightarrow> int" where
  "indexOf [] c = -1"
| "indexOf (x # xs) c =
     (if x = c then 0 else (let i = indexOf xs c in if i < 0 then -1 else i + 1))"

text \<open>\<open>s.slice(i, j)\<close> and \<open>s.slice(i)\<close> for indices within the string.\<close>

definition slice :: "string \<Rightarrow> nat \<Rightarrow> nat \<Rightarrow> string" where
  "slice s i j = take (j - i) (drop i s)"

definition slice_from :: "string \<Rightarrow> nat \<Rightarrow> string" where
  "slice_from s i = drop i s"

text \<open>\<open>s.replace(/&amp;/g, "&")\<close>: left to right, without rescanning what was written.\<close>

fun unescape_amp :: "string \<Rightarrow> string" where
  "unescape_amp [] = []"
| "unescape_amp (c # cs) =
     (if take 5 (c # cs) = ''&amp;'' then CHR ''&'' # unescape_amp (drop 4 cs)
      else c # unescape_amp cs)"

text \<open>\<open>s.replace(/\s+/g, " ")\<close>: every maximal run of white space becomes one space.\<close>

function collapse_ws :: "string \<Rightarrow> string" where
  "collapse_ws [] = []"
| "collapse_ws (c # cs) =
     (if is_ws c then CHR '' '' # collapse_ws (dropWhile is_ws cs)
      else c # collapse_ws cs)"
  by pat_completeness auto
termination
  by (relation "measure length") (auto simp: length_dropWhile_le less_Suc_eq_le)

text \<open>Decimal digits of a natural number and of an integer, as \<open>String(n)\<close> prints them.\<close>

definition digit_char :: "nat \<Rightarrow> char" where
  "digit_char d = char_of (48 + d)"

function dec :: "nat \<Rightarrow> string" where
  "dec n = (if n < 10 then [digit_char n] else dec (n div 10) @ [digit_char (n mod 10)])"
  by pat_completeness auto
termination
  by (relation "measure id") auto

declare dec.simps [simp del]

definition dec_int :: "int \<Rightarrow> string" where
  "dec_int i = (if i < 0 then CHR ''-'' # dec (nat (- i)) else dec (nat i))"

text \<open>\<open>String(v)\<close>. Inside an array \<open>null\<close> prints as the empty string.\<close>

fun String_of :: "json \<Rightarrow> string" where
  "String_of JNull = ''null''"
| "String_of (JBool b) = (if b then ''true'' else ''false'')"
| "String_of (JNum n) = dec_int n"
| "String_of (JStr s) = s"
| "String_of (JArr xs) =
     join '','' (map (\<lambda>x. case x of JNull \<Rightarrow> [] | _ \<Rightarrow> String_of x) xs)"
| "String_of (JObj ob) = ''[object Object]''"

section \<open>The text codec (libs/cq)\<close>

text \<open>A segment: at run time its type is a string; \<open>raw\<close> is present on parsed tokens only.\<close>

record Segment =
  type :: string
  data :: obj
  raw :: "string option"

record CQBuildPayload =
  payload_text :: "string option"
  replyToId :: "string option"
  mentions :: "string list option"

definition known_type :: "string \<Rightarrow> bool" where
  "known_type t = (t = ''text'' \<or> t = ''at'' \<or> t = ''reply'' \<or> t = ''image''
     \<or> t = ''file'' \<or> t = ''record'')"

subsection \<open>parseCQBody\<close>

text \<open>One step of the attribute loop: an entry without \<open>=\<close>, or with \<open>=\<close> first, is skipped.\<close>

definition add_kv :: "obj \<Rightarrow> string \<Rightarrow> obj" where
  "add_kv d kv =
     (let idx = indexOf kv CHR ''='' in
      if idx \<le> 0 then d
      else (let key = trim (slice kv 0 (nat idx));
                val = unescape_amp (trim (slice_from kv (nat idx + 1)))
            in obj_set d key (JStr val)))"

text \<open>The type name of a token body: the part before the first comma, trimmed, and
  \<open>"unknown"\<close> when that is empty.\<close>

definition cq_type :: "string \<Rightarrow> string" where
  "cq_type body =
     (case split_on CHR '','' body of
        [] \<Rightarrow> ''unknown''
      | typePart # _ \<Rightarrow> if trim typePart = [] then ''unknown'' else trim typePart)"

text \<open>The data map of a token body: the parts after the first comma are joined, split
  again, and run through the attribute loop.\<close>

definition cq_attrs :: "string \<Rightarrow> obj" where
  "cq_attrs body =
     (let rest = (case split_on CHR '','' body of [] \<Rightarrow> [] | _ # r \<Rightarrow> r);
          attrs = join '','' rest
      in if attrs = [] then [] else foldl add_kv [] (split_on CHR '','' attrs))"

definition parseCQBody :: "string \<Rightarrow> Segment" where
  "parseCQBody body =
     (let raw0 = ''[CQ:'' @ body @ '']'';
          ty = cq_type body;
          d = cq_attrs body
      in if known_type ty
         then \<lparr>type = ty, data = d, raw = Some raw0\<rparr>
         else \<lparr>type = ''unknown'', data = obj_spread [(''cqType'', JStr ty)] d, raw = Some raw0\<rparr>)"

subsection \<open>parseStringInput\<close>

text \<open>
  The pattern \<open>\[CQ:([^[\]]+)\]\<close> at index \<open>i\<close>: the prefix \<open>[CQ:\<close>, then the longest
  non-empty run without brackets, then \<open>]\<close>. The run excludes \<open>]\<close>, so no shorter run
  can match either. The result is the captured body.
\<close>

definition no_bracket :: "char \<Rightarrow> bool" where
  "no_bracket c = (c \<noteq> CHR ''['' \<and> c \<noteq> CHR '']'')"

definition match_at :: "string \<Rightarrow> nat \<Rightarrow> string option" where
  "match_at input i =
     (let s = drop i input in
      if take 4 s = ''[CQ:''
      then (let body = takeWhile no_bracket (drop 4 s) in
            if body \<noteq> [] \<and> take 1 (drop (4 + length body) s) = '']''
            then Some body else None)
      else None)"

text \<open>\<open>re.exec(input)\<close> with \<open>lastIndex = i\<close>: the leftmost match at or after \<open>i\<close>, as its
  index and captured body; the whole match is five characters longer than the body.\<close>

function re_exec :: "string \<Rightarrow> nat \<Rightarrow> (nat \<times> string) option" where
  "re_exec input i =
     (if length input \<le> i then None
      else (case match_at input i of
              Some body \<Rightarrow> Some (i, body)
            | None \<Rightarrow> re_exec input (Suc i)))"
  by pat_completeness auto
termination
  by (relation "measure (\<lambda>(input, i). length input - i)") auto

declare re_exec.simps [simp del]

definition text_segment :: "string \<Rightarrow> Segment" where
  "text_segment s = \<lparr>type = ''text'', data = [(''text'', JStr s)], raw = None\<rparr>"

lemma re_exec_bounds:
  "re_exec input i = Some (idx, body) \<Longrightarrow> i \<le> idx \<and> idx < length input"
proof (induction input i rule: re_exec.induct)
  case (1 input i)
  from "1.prems" have inside: "\<not> length input \<le> i"
    by (subst (asm) re_exec.simps) (simp split: if_splits)
  show ?case
  proof (cases "match_at input i")
    case None
    with inside "1.prems" have "re_exec input (Suc i) = Some (idx, body)"
      by (subst (asm) re_exec.simps) simp
    with "1.IH" [OF inside None] show ?thesis by simp
  next
    case (Some b)
    with inside "1.prems" have "idx = i"
      by (subst (asm) re_exec.simps) simp
    with inside show ?thesis by simp
  qed
qed

text \<open>The \<open>while\<close> loop of \<open>parseStringInput\<close>: the state is the cursor (which is also the
  pattern's \<open>lastIndex\<close>) and the segments pushed so far.\<close>

function parse_loop :: "string \<Rightarrow> nat \<Rightarrow> Segment list \<Rightarrow> Segment list \<times> nat" where
  "parse_loop input cursor segs =
     (case re_exec input cursor of
        None \<Rightarrow> (segs, cursor)
      | Some (idx, body) \<Rightarrow>
          parse_loop input (idx + (length body + 5))
            (segs @ (if idx > cursor then [text_segment (slice input cursor idx)] else [])
                  @ [parseCQBody body]))"
  by pat_completeness auto
termination
proof (relation "measure (\<lambda>(input, cursor, segs). length input - cursor)", goal_cases)
  case 1
  show ?case by simp
next
  case (2 input cursor segs x2 idx body)
  then have "re_exec input cursor = Some (idx, body)" by simp
  then have "cursor \<le> idx \<and> idx < length input"
    by (rule re_exec_bounds)
  then show ?case by (simp; arith)
qed

declare parse_loop.simps [simp del]

definition parseStringInput :: "string \<Rightarrow> Segment list" where
  "parseStringInput input =
     (let (segs, cursor) = parse_loop input 0 [];
          segs1 = (if cursor < length input
                   then segs @ [text_segment (slice_from input cursor)] else segs)
      in if segs1 = [] then [text_segment input] else segs1)"

subsection \<open>parseArrayInput and parseInboundCQ\<close>

text \<open>An array read as a record has its indices as keys.\<close>

definition array_entries :: "json list \<Rightarrow> obj" where
  "array_entries xs = zip (map dec [0 ..< length xs]) xs"

text \<open>One iteration of the loop of \<open>parseArrayInput\<close>. Only an object has the properties
  \<open>type\<close> and \<open>data\<close>; \<open>typeof\<close> of an array is \<open>"object"\<close> as well.\<close>

definition array_item :: "json \<Rightarrow> Segment" where
  "array_item item =
     (let ty = (case item of
                  JObj ob \<Rightarrow> (case obj_get ob ''type'' of Some (JStr t) \<Rightarrow> t | _ \<Rightarrow> ''unknown'')
                | _ \<Rightarrow> ''unknown'');
          d = (case item of
                 JObj ob \<Rightarrow> (case obj_get ob ''data'' of
                              Some (JObj d0) \<Rightarrow> d0
                            | Some (JArr xs) \<Rightarrow> array_entries xs
                            | _ \<Rightarrow> [])
               | _ \<Rightarrow> [])
      in if known_type ty
         then \<lparr>type = ty, data = d, raw = None\<rparr>
         else \<lparr>type = ''unknown'', data = obj_spread [(''cqType'', JStr ty)] d, raw = None\<rparr>)"

definition parseArrayInput :: "json list \<Rightarrow> Segment list" where
  "parseArrayInput input = map array_item input"

datatype cq_input = InString string | InArray "json list" | InUndefined | InNull

fun parseInboundCQ :: "cq_input \<Rightarrow> Segment list" where
  "parseInboundCQ (InString s) = parseStringInput s"
| "parseInboundCQ (InArray xs) = parseArrayInput xs"
| "parseInboundCQ InUndefined = []"
| "parseInboundCQ InNull = []"

subsection \<open>buildOutboundSegments\<close>

text \<open>The two segments pushed for one mention; nothing for a mention that trims to nothing.\<close>

definition mention_segments :: "string \<Rightarrow> Segment list" where
  "mention_segments mention =
     (let qq = trim mention in
      if qq = [] then []
      else [\<lparr>type = ''at'', data = [(''qq'', JStr qq)], raw = None\<rparr>,
            \<lparr>type = ''text'', data = [(''text'', JStr '' '')], raw = None\<rparr>])"

definition buildOutboundSegments :: "CQBuildPayload \<Rightarrow> Segment list" where
  "buildOutboundSegments payload =
     (let s1 = (case replyToId payload of
                  None \<Rightarrow> []
                | Some r \<Rightarrow> if r = [] then []
                           else [\<lparr>type = ''reply'', data = [(''id'', JStr r)], raw = None\<rparr>]);
          s2 = concat (map mention_segments
                         (case mentions payload of None \<Rightarrow> [] | Some ms \<Rightarrow> ms));
          s3 = (case payload_text payload of
                  None \<Rightarrow> []
                | Some t \<Rightarrow> if trim t = [] then []
                           else [\<lparr>type = ''text'', data = [(''text'', JStr (trim t))], raw = None\<rparr>])
      in s1 @ s2 @ s3)"

subsection \<open>toPlainText\<close>

text \<open>\<open>v ?? ""\<close> for a property that may be absent or \<open>null\<close>.\<close>

definition or_empty :: "json option \<Rightarrow> json" where
  "or_empty v = (case v of None \<Rightarrow> JStr [] | Some JNull \<Rightarrow> JStr [] | Some w \<Rightarrow> w)"

text \<open>What one segment pushes onto \<open>out\<close>: at most one string.\<close>

definition plain_piece :: "Segment \<Rightarrow> string list" where
  "plain_piece seg =
     (if type seg = ''text''
      then [case obj_get (data seg) ''text'' of Some (JStr t) \<Rightarrow> t | _ \<Rightarrow> []]
      else if type seg = ''at''
      then (let qq = trim (String_of (or_empty (obj_get (data seg) ''qq'')))
            in [if qq = [] then ''@'' else CHR ''@'' # qq])
      else if type seg = ''image'' then [''[image]'']
      else if type seg = ''file'' then [''[file]'']
      else if type seg = ''record'' then [''[audio]'']
      else [])"

definition toPlainText :: "Segment list \<Rightarrow> string" where
  "toPlainText segments = trim (collapse_ws (join [] (concat (map plain_piece segments))))"

subsection \<open>What the specification calls a bracketed markup token\<close>

text \<open>Stated from the specification's grammar \<open>[CQ:<body>]\<close>, independently of the
  scanner above: the input contains \<open>[CQ:\<close>, a non-empty body free of brackets, and
  \<open>]\<close>.\<close>

definition has_token :: "string \<Rightarrow> bool" where
  "has_token input =
     (\<exists>pre body post. input = pre @ ''[CQ:'' @ body @ '']'' @ post
        \<and> body \<noteq> [] \<and> (\<forall>c \<in> set body. no_bracket c))"

section \<open>The transport client (libs/onebot)\<close>

subsection \<open>Numbers and options\<close>

text \<open>A number of the host language where the code tests for the non-finite ones.\<close>

datatype number = Num real | NaN | PosInf | NegInf

text \<open>\<open>clampMs(value, fallback)\<close>. The fallbacks are the integer defaults.\<close>

definition clampMs :: "number \<Rightarrow> int \<Rightarrow> int" where
  "clampMs v fallback =
     (case v of
        Num r \<Rightarrow> if r < 0 then fallback else \<lfloor>r\<rfloor>
      | _ \<Rightarrow> fallback)"

text \<open>The options the client keeps. The URL, the access token and the headers only reach
  the socket's constructor, the logger only logs: they are left out.\<close>

record Options =
  reconnect :: bool
  reconnectBaseDelayMs :: int
  reconnectMaxAttempts :: int
  reconnectMaxDelayMs :: int
  requestTimeoutMs :: int
  heartbeatTimeoutMs :: "number option"

text \<open>The options as the caller passes them, and the constants of \<open>const.ts\<close>, which is not
  among the sources: they are parameters of the model.\<close>

record OneBotWsClientOptions =
  opt_reconnect :: "bool option"
  opt_reconnectBaseDelayMs :: "number option"
  opt_reconnectMaxAttempts :: "number option"
  opt_reconnectMaxDelayMs :: "number option"
  opt_requestTimeoutMs :: "number option"
  opt_heartbeatTimeoutMs :: "number option"

record Defaults =
  DEFAULT_RECONNECT_ENABLED :: bool
  DEFAULT_RECONNECT_BASE_DELAY_MS :: int
  DEFAULT_RECONNECT_MAX_ATTEMPTS :: int
  DEFAULT_RECONNECT_MAX_DELAY_MS :: int
  DEFAULT_REQUEST_TIMEOUT_MS :: int

text \<open>\<open>v ?? d\<close> for an optional number.\<close>

definition or_default :: "number option \<Rightarrow> int \<Rightarrow> number" where
  "or_default v d = (case v of None \<Rightarrow> Num (of_int d) | Some x \<Rightarrow> x)"

definition make_options :: "Defaults \<Rightarrow> OneBotWsClientOptions \<Rightarrow> Options" where
  "make_options df uo =
     \<lparr>reconnect = (case opt_reconnect uo of None \<Rightarrow> DEFAULT_RECONNECT_ENABLED df | Some b \<Rightarrow> b),
      reconnectBaseDelayMs =
        clampMs (or_default (opt_reconnectBaseDelayMs uo) (DEFAULT_RECONNECT_BASE_DELAY_MS df))
          (DEFAULT_RECONNECT_BASE_DELAY_MS df),
      reconnectMaxAttempts =
        clampMs (or_default (opt_reconnectMaxAttempts uo) (DEFAULT_RECONNECT_MAX_ATTEMPTS df))
          (DEFAULT_RECONNECT_MAX_ATTEMPTS df),
      reconnectMaxDelayMs =
        clampMs (or_default (opt_reconnectMaxDelayMs uo) (DEFAULT_RECONNECT_MAX_DELAY_MS df))
          (DEFAULT_RECONNECT_MAX_DELAY_MS df),
      requestTimeoutMs =
        clampMs (or_default (opt_requestTimeoutMs uo) (DEFAULT_REQUEST_TIMEOUT_MS df))
          (DEFAULT_REQUEST_TIMEOUT_MS df),
      heartbeatTimeoutMs = opt_heartbeatTimeoutMs uo\<rparr>"

subsection \<open>States, errors, events, effects\<close>

datatype OneBotClientState =
  st_idle | st_connecting | st_open | st_closing | st_closed | st_reconnecting

datatype ReadyState = WS_CONNECTING | WS_OPEN | WS_CLOSING | WS_CLOSED

text \<open>The errors \<open>createClientError\<close> builds, by their message; the cause is dropped.\<close>

datatype OneBotClientError =
    NotConnected \<comment> \<open>WebSocket is not connected\<close>
  | ActionTimeout string int \<comment> \<open>OneBot action timeout: action (timeoutMs ms)\<close>
  | SendFailed string \<comment> \<open>Failed to send action: action\<close>
  | Disconnected \<comment> \<open>Disconnected\<close>
  | WebSocketClosed int string \<comment> \<open>WebSocket closed (code reason)\<close>
  | ParseFailed \<comment> \<open>Failed to parse inbound JSON\<close>
  | UnsupportedPayload \<comment> \<open>Received unsupported OneBot payload\<close>
  | WebSocketError \<comment> \<open>WebSocket error\<close>
  | ConnectFailed \<comment> \<open>WebSocket connect failed\<close>
  | ClosedBeforeOpen int string \<comment> \<open>WebSocket closed before open (code reason)\<close>
  | ReconnectExhausted int string \<comment> \<open>Reconnect exhausted after n attempts (reason)\<close>
  | ReconnectAttemptFailed \<comment> \<open>Reconnect attempt failed\<close>
  | HeartbeatTimeout number \<comment> \<open>Heartbeat timeout after n ms\<close>
  | CloseFailed \<comment> \<open>Failed to close timed-out socket\<close>

datatype Direction = Inbound | Outbound

text \<open>What \<open>emit\<close> is called with: the event and its payload.\<close>

datatype ClientEvent =
    EvOpen
  | EvClose int string
  | EvReconnecting nat int string \<comment> \<open>attempt, delayMs, reason\<close>
  | EvError OneBotClientError
  | EvRaw Direction json
  | EvEvent json
  | EvMessage json
  | EvNotice json
  | EvRequest json
  | EvMetaEvent json
  | EvResponse json
  | EvTimeout string string int \<comment> \<open>action, echo, timeoutMs\<close>

fun event_name :: "ClientEvent \<Rightarrow> string" where
  "event_name EvOpen = ''open''"
| "event_name (EvClose _ _) = ''close''"
| "event_name (EvReconnecting _ _ _) = ''reconnecting''"
| "event_name (EvError _) = ''error''"
| "event_name (EvRaw _ _) = ''raw''"
| "event_name (EvEvent _) = ''event''"
| "event_name (EvMessage _) = ''message''"
| "event_name (EvNotice _) = ''notice''"
| "event_name (EvRequest _) = ''request''"
| "event_name (EvMetaEvent _) = ''meta_event''"
| "event_name (EvResponse _) = ''response''"
| "event_name (EvTimeout _ _ _) = ''timeout''"

text \<open>
  What the client does to the world around it, in order. Listeners, promises, sockets and
  timers are named by handles. \<open>Resolve\<close> and \<open>Reject\<close> settle the promise of an action
  call; the promises of \<open>connect\<close> and \<open>disconnect\<close> have effects of their own.
\<close>

datatype Effect =
    Invoke nat ClientEvent \<comment> \<open>a listener is called with the payload\<close>
  | Resolve nat json
  | Reject nat OneBotClientError
  | ConnectResolved nat
  | ConnectRejected nat OneBotClientError
  | DisconnectResolved nat
  | WsNew nat \<comment> \<open>new WebSocket(url, headers)\<close>
  | WsSend nat json \<comment> \<open>ws.send(JSON.stringify(payload))\<close>
  | WsClose nat int string \<comment> \<open>ws.close(code, reason)\<close>

subsection \<open>The world: the client's fields and the runtime they refer to\<close>

text \<open>A pending request. Its \<open>resolve\<close> and \<open>reject\<close> are those of one promise, named by
  \<open>promise\<close>; \<open>timer\<close> is the handle \<open>setTimeout\<close> returned.\<close>

record PendingRequest =
  action :: string
  timeoutMs :: int
  promise :: nat
  timer :: nat

text \<open>The closures handed to \<open>setTimeout\<close> and \<open>setInterval\<close>, with what they captured.\<close>

datatype TimerCallback =
    RequestTimeout string string int nat \<comment> \<open>action, echo, timeoutMs, promise\<close>
  | ReconnectFire nat \<comment> \<open>nextAttempt\<close>
  | HeartbeatCheck number \<comment> \<open>timeoutMs\<close>

record Timer =
  delay :: number
  callback :: TimerCallback

text \<open>
  A socket as the client sees it: its \<open>readyState\<close>, the variables \<open>opened\<close> and \<open>settled\<close>
  its handlers captured in \<open>connect\<close>, how many \<open>catch\<close> handlers of the reconnect timer hang
  on the promise of that \<open>connect\<close>, and which \<open>disconnect\<close> calls wait for its close.
\<close>

record Socket =
  readyState :: ReadyState
  opened :: bool
  settled :: bool
  catchers :: nat
  once_close :: "nat list"

text \<open>Promise reactions waiting in the microtask queue.\<close>

datatype Job =
    ConnectFinally nat bool \<comment> \<open>the connect promise of this socket settled; fulfilled?\<close>
  | ReconnectCatch
  | DisconnectResume nat

record World =
  options :: Options
  ws :: "nat option"
  state :: OneBotClientState
  manuallyClosed :: bool
  connectPromise :: "nat option"
  reconnectAttempt :: nat
  reconnectTimer :: "nat option"
  lastInboundAt :: int
  heartbeatTimer :: "nat option"
  echoSeq :: nat
  listeners :: "(string \<times> nat list) list"
  pendingRequests :: "(string \<times> PendingRequest) list"
  sockets :: "(nat \<times> Socket) list"
  timers :: "(nat \<times> Timer) list"
  jobs :: "Job list"
  awaiting :: "nat list"
  next_handle :: nat
  trace :: "Effect list"

text \<open>What the runtime answers during one task: the clock, the random number, whether
  \<open>close\<close> and \<open>send\<close> of the socket throw, and \<open>JSON.parse\<close> (\<open>None\<close> when it throws).\<close>

record Env =
  now :: int
  random :: real
  close_throws :: bool
  send_throws :: bool
  JSON_parse :: "string \<Rightarrow> json option"

definition new_client :: "Options \<Rightarrow> World" where
  "new_client opts =
     \<lparr>options = opts, ws = None, state = st_idle, manuallyClosed = False,
      connectPromise = None, reconnectAttempt = 0, reconnectTimer = None,
      lastInboundAt = 0, heartbeatTimer = None, echoSeq = 0,
      listeners = [], pendingRequests = [], sockets = [], timers = [], jobs = [],
      awaiting = [], next_handle = 0, trace = []\<rparr>"

subsection \<open>The runtime's primitives\<close>

text \<open>A \<open>Map\<close> keyed by strings, in insertion order.\<close>

definition Map_get :: "(string \<times> 'v) list \<Rightarrow> string \<Rightarrow> 'v option" where
  "Map_get m k = map_of m k"

fun Map_set :: "(string \<times> 'v) list \<Rightarrow> string \<Rightarrow> 'v \<Rightarrow> (string \<times> 'v) list" where
  "Map_set [] k v = [(k, v)]"
| "Map_set ((k', v') # rest) k v =
     (if k' = k then (k, v) # rest else (k', v') # Map_set rest k v)"

definition Map_delete :: "(string \<times> 'v) list \<Rightarrow> string \<Rightarrow> (string \<times> 'v) list" where
  "Map_delete m k = filter (\<lambda>kv. fst kv \<noteq> k) m"

text \<open>\<open>setTimeout\<close> and \<open>setInterval\<close> arm a timer and return its handle; \<open>clearTimeout\<close> and
  \<open>clearInterval\<close> disarm it.\<close>

definition setTimer :: "number \<Rightarrow> TimerCallback \<Rightarrow> World \<Rightarrow> nat \<times> World" where
  "setTimer d cb w =
     (next_handle w,
      w\<lparr>timers := timers w @ [(next_handle w, \<lparr>delay = d, callback = cb\<rparr>)],
        next_handle := Suc (next_handle w)\<rparr>)"

definition clearTimer :: "nat \<Rightarrow> World \<Rightarrow> World" where
  "clearTimer t w = w\<lparr>timers := filter (\<lambda>e. fst e \<noteq> t) (timers w)\<rparr>"

definition effect :: "Effect \<Rightarrow> World \<Rightarrow> World" where
  "effect e w = w\<lparr>trace := trace w @ [e]\<rparr>"

definition enqueue :: "Job \<Rightarrow> World \<Rightarrow> World" where
  "enqueue j w = w\<lparr>jobs := jobs w @ [j]\<rparr>"

definition socket_of :: "World \<Rightarrow> nat \<Rightarrow> Socket option" where
  "socket_of w s = map_of (sockets w) s"

definition update_socket :: "nat \<Rightarrow> (Socket \<Rightarrow> Socket) \<Rightarrow> World \<Rightarrow> World" where
  "update_socket s f w =
     w\<lparr>sockets := map (\<lambda>e. if fst e = s then (fst e, f (snd e)) else e) (sockets w)\<rparr>"

text \<open>\<open>ws.readyState\<close>; a handle the runtime does not know reads as closed.\<close>

definition readyState_of :: "World \<Rightarrow> nat \<Rightarrow> ReadyState" where
  "readyState_of w s = (case socket_of w s of None \<Rightarrow> WS_CLOSED | Some sk \<Rightarrow> readyState sk)"

text \<open>\<open>ws.close(code, reason)\<close>: it throws, or the socket starts closing unless it is closed
  already. The result tells whether it threw.\<close>

definition ws_close :: "Env \<Rightarrow> nat \<Rightarrow> int \<Rightarrow> string \<Rightarrow> World \<Rightarrow> bool \<times> World" where
  "ws_close env s code reason w =
     (if close_throws env then (True, w)
      else (False,
            update_socket s
              (\<lambda>sk. if readyState sk = WS_CLOSED then sk else sk\<lparr>readyState := WS_CLOSING\<rparr>)
              (effect (WsClose s code reason) w)))"

subsection \<open>Listeners and emit\<close>

definition listeners_of :: "World \<Rightarrow> string \<Rightarrow> nat list" where
  "listeners_of w name = (case map_of (listeners w) name of None \<Rightarrow> [] | Some ls \<Rightarrow> ls)"

text \<open>\<open>on\<close> and \<open>off\<close>: each event has a set of listeners, kept in insertion order.\<close>

definition on_listener :: "string \<Rightarrow> nat \<Rightarrow> World \<Rightarrow> World" where
  "on_listener name l w =
     (let ls = listeners_of w name
      in w\<lparr>listeners := Map_set (listeners w) name (if l \<in> set ls then ls else ls @ [l])\<rparr>)"

definition off_listener :: "string \<Rightarrow> nat \<Rightarrow> World \<Rightarrow> World" where
  "off_listener name l w =
     w\<lparr>listeners := Map_set (listeners w) name (removeAll l (listeners_of w name))\<rparr>"

text \<open>
  \<open>emit\<close> calls every listener of the event with the payload, in order, and swallows what a
  listener throws. The listeners are the caller's code: each call is recorded as an
  effect, and a listener is taken not to call back into the client while it runs.
\<close>

definition emit :: "ClientEvent \<Rightarrow> World \<Rightarrow> World" where
  "emit ev w = w\<lparr>trace := trace w @ map (\<lambda>l. Invoke l ev) (listeners_of w (event_name ev))\<rparr>"

subsection \<open>The private methods\<close>

definition transitionTo :: "OneBotClientState \<Rightarrow> World \<Rightarrow> World" where
  "transitionTo next w = w\<lparr>state := next\<rparr>"

definition generateEcho :: "Env \<Rightarrow> World \<Rightarrow> string \<times> World" where
  "generateEcho env w =
     (let w1 = w\<lparr>echoSeq := echoSeq w + 1\<rparr>
      in (''ob_'' @ dec_int (now env) @ ''_'' @ dec (echoSeq w1), w1))"

definition clearReconnectTimer :: "World \<Rightarrow> World" where
  "clearReconnectTimer w =
     (case reconnectTimer w of
        None \<Rightarrow> w
      | Some t \<Rightarrow> (clearTimer t w)\<lparr>reconnectTimer := None\<rparr>)"

definition stopHeartbeatMonitor :: "World \<Rightarrow> World" where
  "stopHeartbeatMonitor w =
     (case heartbeatTimer w of
        None \<Rightarrow> w
      | Some t \<Rightarrow> (clearTimer t w)\<lparr>heartbeatTimer := None\<rparr>)"

text \<open>\<open>!timeoutMs || timeoutMs <= 0\<close> on a number.\<close>

definition heartbeat_disabled :: "number \<Rightarrow> bool" where
  "heartbeat_disabled t =
     (case t of Num r \<Rightarrow> r \<le> 0 | NaN \<Rightarrow> True | PosInf \<Rightarrow> False | NegInf \<Rightarrow> True)"

text \<open>\<open>Math.max(1000, Math.floor(timeoutMs / 2))\<close>.\<close>

definition checkInterval :: "number \<Rightarrow> number" where
  "checkInterval t =
     (case t of
        Num r \<Rightarrow> Num (max 1000 (of_int \<lfloor>r / 2\<rfloor>))
      | NaN \<Rightarrow> NaN
      | PosInf \<Rightarrow> PosInf
      | NegInf \<Rightarrow> Num 1000)"

definition startHeartbeatMonitor :: "World \<Rightarrow> World" where
  "startHeartbeatMonitor w =
     (let w1 = stopHeartbeatMonitor w in
      case heartbeatTimeoutMs (options w1) of
        None \<Rightarrow> w1
      | Some t \<Rightarrow>
          if heartbeat_disabled t then w1
          else (let (h, w2) = setTimer (checkInterval t) (HeartbeatCheck t) w1
                in w2\<lparr>heartbeatTimer := Some h\<rparr>))"

text \<open>One turn of the loop of \<open>rejectAllPending\<close>, and the loop over the entries.\<close>

definition reject_entry :: "OneBotClientError \<Rightarrow> World \<Rightarrow> string \<times> PendingRequest \<Rightarrow> World" where
  "reject_entry err w entry =
     (let w1 = clearTimer (timer (snd entry)) w;
          w2 = effect (Reject (promise (snd entry)) err) w1
      in w2\<lparr>pendingRequests := Map_delete (pendingRequests w2) (fst entry)\<rparr>)"

definition rejectAllPending :: "OneBotClientError \<Rightarrow> World \<Rightarrow> World" where
  "rejectAllPending err w = foldl (reject_entry err) w (pendingRequests w)"

definition scheduleReconnect :: "Env \<Rightarrow> string \<Rightarrow> World \<Rightarrow> World" where
  "scheduleReconnect env reason w =
     (if reconnectTimer w \<noteq> None then w
      else
        (let nextAttempt = reconnectAttempt w + 1 in
         if int nextAttempt > reconnectMaxAttempts (options w)
         then emit (EvError (ReconnectExhausted (reconnectMaxAttempts (options w)) reason)) w
         else
           (let exponentialDelay =
                  min (reconnectMaxDelayMs (options w))
                      (reconnectBaseDelayMs (options w) * 2 ^ (nextAttempt - 1));
                jitterMs = \<lfloor>random env * 300\<rfloor>;
                delayMs = exponentialDelay + jitterMs;
                w1 = transitionTo st_reconnecting w;
                w2 = emit (EvReconnecting nextAttempt delayMs reason) w1;
                (t, w3) = setTimer (Num (of_int delayMs)) (ReconnectFire nextAttempt) w2
            in w3\<lparr>reconnectTimer := Some t\<rparr>)))"

definition handleSocketClose :: "Env \<Rightarrow> int \<Rightarrow> string \<Rightarrow> World \<Rightarrow> World" where
  "handleSocketClose env code reason w =
     (let w1 = stopHeartbeatMonitor w;
          w2 = w1\<lparr>ws := None\<rparr>;
          w3 = transitionTo st_closed w2;
          w4 = emit (EvClose code reason) w3;
          w5 = rejectAllPending (WebSocketClosed code reason) w4
      in if manuallyClosed w5 then w5
         else if \<not> reconnect (options w5) then w5
         else scheduleReconnect env (''close:'' @ dec_int code) w5)"

subsection \<open>Inbound frames\<close>

text \<open>Property read on a parsed value: only an object has the properties read here.\<close>

definition field :: "json \<Rightarrow> string \<Rightarrow> json option" where
  "field v k = (case v of JObj ob \<Rightarrow> obj_get ob k | _ \<Rightarrow> None)"

text \<open>\<open>Boolean(value) && typeof value === "object"\<close>: objects and arrays.\<close>

definition isRecord :: "json \<Rightarrow> bool" where
  "isRecord v = (case v of JObj _ \<Rightarrow> True | JArr _ \<Rightarrow> True | _ \<Rightarrow> False)"

definition isEventPacket :: "json \<Rightarrow> bool" where
  "isEventPacket v =
     (isRecord v \<and> (case field v ''post_type'' of Some (JStr _) \<Rightarrow> True | _ \<Rightarrow> False))"

definition isApiResponsePacket :: "json \<Rightarrow> bool" where
  "isApiResponsePacket v =
     (isRecord v \<and> (case field v ''status'' of Some (JStr _) \<Rightarrow> True | _ \<Rightarrow> False)
      \<and> (case field v ''retcode'' of Some (JNum _) \<Rightarrow> True | _ \<Rightarrow> False))"

text \<open>\<open>handleInbound\<close>, on the frame's text: decoding a buffer is the runtime's.\<close>

definition handleInbound :: "Env \<Rightarrow> string \<Rightarrow> World \<Rightarrow> World" where
  "handleInbound env txt w =
     (case JSON_parse env txt of
        None \<Rightarrow> emit (EvError ParseFailed) (emit (EvRaw Inbound (JStr txt)) w)
      | Some payload \<Rightarrow>
          (let w1 = emit (EvRaw Inbound payload) w in
           if isApiResponsePacket payload then
             (let w2 = emit (EvResponse payload) w1 in
              case field payload ''echo'' of
                Some (JStr e) \<Rightarrow>
                  (case Map_get (pendingRequests w2) e of
                     None \<Rightarrow> w2
                   | Some pending \<Rightarrow>
                       (let w3 = clearTimer (timer pending) w2;
                            w4 = w3\<lparr>pendingRequests := Map_delete (pendingRequests w3) e\<rparr>
                        in effect (Resolve (promise pending) payload) w4))
              | _ \<Rightarrow> w2)
           else if isEventPacket payload then
             (let w2 = emit (EvEvent payload) w1 in
              if field payload ''post_type'' = Some (JStr ''message'')
              then emit (EvMessage payload) w2
              else if field payload ''post_type'' = Some (JStr ''notice'')
              then emit (EvNotice payload) w2
              else if field payload ''post_type'' = Some (JStr ''request'')
              then emit (EvRequest payload) w2
              else if field payload ''post_type'' = Some (JStr ''meta_event'')
              then emit (EvMetaEvent payload) w2
              else w2)
           else emit (EvError UnsupportedPayload) w1))"

subsection \<open>connect, disconnect, callAction\<close>

text \<open>
  \<open>connect\<close>. The result names the promise the caller gets: \<open>None\<close> when the call returns
  at once because the client is open, otherwise the connect in flight, which is named
  by its socket. A new socket gets the four handlers, which are \<open>socket_open\<close>,
  \<open>socket_message\<close>, \<open>socket_error\<close> and \<open>socket_close\<close> below.
\<close>

definition connect :: "World \<Rightarrow> nat option \<times> World" where
  "connect w =
     (if state w = st_open then (None, w)
      else (case connectPromise w of
              Some p \<Rightarrow> (Some p, w)
            | None \<Rightarrow>
                (let w1 = w\<lparr>manuallyClosed := False\<rparr>;
                     w2 = clearReconnectTimer w1;
                     w3 = transitionTo st_connecting w2;
                     s = next_handle w3;
                     w4 = effect (WsNew s)
                            (w3\<lparr>next_handle := Suc s,
                                sockets := sockets w3 @
                                  [(s, \<lparr>readyState = WS_CONNECTING, opened = False,
                                        settled = False, catchers = 0, once_close = []\<rparr>)]\<rparr>)
                 in (Some s, w4\<lparr>ws := Some s, connectPromise := Some s\<rparr>))))"

text \<open>The reactions of the promise of a connect: \<open>finally\<close> clears \<open>connectPromise\<close>; a
  rejection then reaches each \<open>catch\<close> the reconnect timer attached.\<close>

definition connect_finally :: "nat \<Rightarrow> bool \<Rightarrow> World \<Rightarrow> World" where
  "connect_finally s fulfilled w =
     (let w1 = w\<lparr>connectPromise := None\<rparr> in
      if fulfilled then w1
      else w1\<lparr>jobs := jobs w1 @
             replicate (case socket_of w1 s of None \<Rightarrow> 0 | Some sk \<Rightarrow> catchers sk)
               ReconnectCatch\<rparr>)"

definition reconnect_catch :: "Env \<Rightarrow> World \<Rightarrow> World" where
  "reconnect_catch env w =
     scheduleReconnect env ''connect_failed'' (emit (EvError ReconnectAttemptFailed) w)"

text \<open>The callback of the reconnect timer.\<close>

definition reconnect_fire :: "nat \<Rightarrow> World \<Rightarrow> World" where
  "reconnect_fire nextAttempt w =
     (let w1 = w\<lparr>reconnectTimer := None\<rparr>;
          w2 = w1\<lparr>reconnectAttempt := nextAttempt\<rparr>;
          (p, w3) = connect w2
      in case p of
           None \<Rightarrow> w3
         | Some s \<Rightarrow> update_socket s (\<lambda>sk. sk\<lparr>catchers := Suc (catchers sk)\<rparr>) w3)"

text \<open>What follows the \<open>await\<close> in \<open>disconnect\<close>, and \<open>disconnect\<close> up to it. A call is
  named by a handle; \<open>awaiting\<close> holds the calls whose inner promise is unresolved.\<close>

definition disconnect_resume :: "nat \<Rightarrow> World \<Rightarrow> World" where
  "disconnect_resume d w =
     effect (DisconnectResolved d) (rejectAllPending Disconnected (transitionTo st_closed w))"

definition resolve_waiter :: "nat \<Rightarrow> World \<Rightarrow> World" where
  "resolve_waiter d w =
     (if d \<in> set (awaiting w)
      then enqueue (DisconnectResume d) (w\<lparr>awaiting := removeAll d (awaiting w)\<rparr>)
      else w)"

definition disconnect :: "Env \<Rightarrow> int option \<Rightarrow> string option \<Rightarrow> World \<Rightarrow> World" where
  "disconnect env code0 reason0 w0 =
     (let code = (case code0 of None \<Rightarrow> 1000 | Some c \<Rightarrow> c);
          reason = (case reason0 of None \<Rightarrow> ''manual disconnect'' | Some r \<Rightarrow> r);
          d = next_handle w0;
          w = w0\<lparr>next_handle := Suc d\<rparr>;
          w1 = w\<lparr>manuallyClosed := True\<rparr>;
          w2 = clearReconnectTimer w1;
          w3 = stopHeartbeatMonitor w2;
          w4 = transitionTo st_closing w3
      in case ws w4 of
           None \<Rightarrow>
             effect (DisconnectResolved d)
               (rejectAllPending Disconnected (transitionTo st_closed w4))
         | Some s \<Rightarrow>
             if readyState_of w4 s = WS_CLOSED
             then effect (DisconnectResolved d)
                    (rejectAllPending Disconnected (transitionTo st_closed (w4\<lparr>ws := None\<rparr>)))
             else
               (let w5 = update_socket s (\<lambda>sk. sk\<lparr>once_close := once_close sk @ [d]\<rparr>)
                           (w4\<lparr>awaiting := awaiting w4 @ [d]\<rparr>);
                    (threw, w6) = ws_close env s code reason w5
                in if threw then resolve_waiter d w6 else w6))"

text \<open>\<open>disconnect\<close> up to the test of the socket.\<close>

definition disconnect_begin :: "World \<Rightarrow> World" where
  "disconnect_begin w =
     transitionTo st_closing (stopHeartbeatMonitor (clearReconnectTimer
       (w\<lparr>next_handle := Suc (next_handle w), manuallyClosed := True\<rparr>)))"

record CallOptions =
  call_timeoutMs :: "number option"
  call_echo :: "string option"

text \<open>The payload \<open>{ action, params, echo }\<close>; absent params are no property of the frame.\<close>

definition request_payload :: "string \<Rightarrow> json option \<Rightarrow> string \<Rightarrow> json" where
  "request_payload act params echo =
     JObj ([(''action'', JStr act)]
           @ (case params of None \<Rightarrow> [] | Some p \<Rightarrow> [(''params'', p)])
           @ [(''echo'', JStr echo)])"

text \<open>\<open>callAction\<close>: \<open>Inl\<close> is the error thrown before any promise exists, \<open>Inr\<close> the promise
  returned.\<close>

definition callAction ::
  "Env \<Rightarrow> string \<Rightarrow> json option \<Rightarrow> CallOptions \<Rightarrow> World \<Rightarrow> (OneBotClientError + nat) \<times> World" where
  "callAction env act params opts w =
     (case ws w of
        None \<Rightarrow> (Inl NotConnected, w)
      | Some s \<Rightarrow>
          if state w \<noteq> st_open \<or> readyState_of w s \<noteq> WS_OPEN then (Inl NotConnected, w)
          else
            (let tmo = clampMs (or_default (call_timeoutMs opts) (requestTimeoutMs (options w)))
                         (requestTimeoutMs (options w));
                 (echo, w1) = (case call_echo opts of
                                 Some e \<Rightarrow> (e, w)
                               | None \<Rightarrow> generateEcho env w);
                 payload = request_payload act params echo;
                 w2 = emit (EvRaw Outbound payload) w1;
                 p = next_handle w2;
                 w3 = w2\<lparr>next_handle := Suc p\<rparr>;
                 (t, w4) = setTimer (Num (of_int tmo)) (RequestTimeout act echo tmo p) w3;
                 w5 = w4\<lparr>pendingRequests :=
                         Map_set (pendingRequests w4) echo
                           \<lparr>action = act, timeoutMs = tmo, promise = p, timer = t\<rparr>\<rparr>
             in if send_throws env
                then (let w6 = (case Map_get (pendingRequests w5) echo of
                                  None \<Rightarrow> w5
                                | Some pending \<Rightarrow>
                                    (clearTimer (timer pending) w5)
                                      \<lparr>pendingRequests := Map_delete (pendingRequests w5) echo\<rparr>)
                      in (Inr p, effect (Reject p (SendFailed act)) w6))
                else (Inr p, effect (WsSend s payload) w5)))"



subsection \<open>The handlers of a socket and of the timers\<close>

definition socket_flag :: "World \<Rightarrow> nat \<Rightarrow> (Socket \<Rightarrow> bool) \<Rightarrow> bool" where
  "socket_flag w s f = (case socket_of w s of None \<Rightarrow> False | Some sk \<Rightarrow> f sk)"

text \<open>\<open>ws.on("open", ...)\<close>; the runtime has set \<open>readyState\<close> before it calls the handler.\<close>

definition socket_open :: "Env \<Rightarrow> nat \<Rightarrow> World \<Rightarrow> World" where
  "socket_open env s w0 =
     (case socket_of w0 s of
        None \<Rightarrow> w0
      | Some _ \<Rightarrow>
          (let w = update_socket s (\<lambda>sk. sk\<lparr>readyState := WS_OPEN\<rparr>) w0;
               w1 = update_socket s (\<lambda>sk. sk\<lparr>opened := True\<rparr>) w;
               w2 = w1\<lparr>reconnectAttempt := 0\<rparr>;
               w3 = w2\<lparr>lastInboundAt := now env\<rparr>;
               w4 = startHeartbeatMonitor w3;
               w5 = transitionTo st_open w4;
               w6 = emit EvOpen w5
           in if socket_flag w6 s settled then w6
              else enqueue (ConnectFinally s True)
                     (effect (ConnectResolved s)
                        (update_socket s (\<lambda>sk. sk\<lparr>settled := True\<rparr>) w6))))"

text \<open>\<open>ws.on("message", ...)\<close>.\<close>

definition socket_message :: "Env \<Rightarrow> nat \<Rightarrow> string \<Rightarrow> World \<Rightarrow> World" where
  "socket_message env s txt w =
     (case socket_of w s of
        None \<Rightarrow> w
      | Some _ \<Rightarrow> handleInbound env txt (w\<lparr>lastInboundAt := now env\<rparr>))"

text \<open>\<open>if (!opened && !settled) { settled = true; reject(err) }\<close>.\<close>

definition reject_connect :: "nat \<Rightarrow> OneBotClientError \<Rightarrow> World \<Rightarrow> World" where
  "reject_connect s err w =
     (if \<not> socket_flag w s opened \<and> \<not> socket_flag w s settled
      then enqueue (ConnectFinally s False)
             (effect (ConnectRejected s err)
                (update_socket s (\<lambda>sk. sk\<lparr>settled := True\<rparr>) w))
      else w)"

text \<open>\<open>ws.on("error", ...)\<close>.\<close>

definition socket_error :: "nat \<Rightarrow> World \<Rightarrow> World" where
  "socket_error s w =
     (case socket_of w s of
        None \<Rightarrow> w
      | Some _ \<Rightarrow> reject_connect s ConnectFailed (emit (EvError WebSocketError) w))"

text \<open>The close event of a socket: the runtime sets \<open>readyState\<close>, then the handler of
  \<open>connect\<close> runs, then the \<open>once\<close> listeners of waiting \<open>disconnect\<close> calls.\<close>

definition socket_close :: "Env \<Rightarrow> nat \<Rightarrow> int \<Rightarrow> string \<Rightarrow> World \<Rightarrow> World" where
  "socket_close env s code reason w0 =
     (case socket_of w0 s of
        None \<Rightarrow> w0
      | Some sk0 \<Rightarrow>
          (let w = update_socket s (\<lambda>sk. sk\<lparr>readyState := WS_CLOSED\<rparr>) w0;
               w1 = handleSocketClose env code reason w;
               w2 = reject_connect s (ClosedBeforeOpen code reason) w1;
               w3 = update_socket s (\<lambda>sk. sk\<lparr>once_close := []\<rparr>) w2
           in foldl (\<lambda>v d. resolve_waiter d v) w3 (once_close sk0)))"

text \<open>The peer starts the closing handshake: no handler runs, \<open>readyState\<close> changes.\<close>

definition socket_closing :: "nat \<Rightarrow> World \<Rightarrow> World" where
  "socket_closing s w =
     update_socket s
       (\<lambda>sk. if readyState sk = WS_OPEN then sk\<lparr>readyState := WS_CLOSING\<rparr> else sk) w"

text \<open>\<open>Date.now() - this.lastInboundAt <= timeoutMs\<close>.\<close>

definition elapsed_within :: "int \<Rightarrow> number \<Rightarrow> bool" where
  "elapsed_within d t = (case t of Num r \<Rightarrow> of_int d \<le> r | PosInf \<Rightarrow> True | _ \<Rightarrow> False)"

text \<open>The callback of the heartbeat interval.\<close>

definition heartbeat_check :: "Env \<Rightarrow> number \<Rightarrow> World \<Rightarrow> World" where
  "heartbeat_check env tmo w =
     (if elapsed_within (now env - lastInboundAt w) tmo then w
      else
        (let w1 = emit (EvError (HeartbeatTimeout tmo)) w in
         case ws w1 of
           None \<Rightarrow> w1
         | Some s \<Rightarrow>
             (let (threw, w2) = ws_close env s 4000 ''heartbeat timeout'' w1
              in if threw then emit (EvError CloseFailed) w2 else w2)))"

text \<open>The callback of the timer of a request.\<close>

definition request_timeout :: "string \<Rightarrow> string \<Rightarrow> int \<Rightarrow> nat \<Rightarrow> World \<Rightarrow> World" where
  "request_timeout act echo tmo p w =
     (let w1 = w\<lparr>pendingRequests := Map_delete (pendingRequests w) echo\<rparr>;
          w2 = emit (EvTimeout act echo tmo) w1
      in effect (Reject p (ActionTimeout act tmo)) w2)"

text \<open>An armed timer fires: a timeout is disarmed by firing, an interval stays armed.\<close>

definition timer_fire :: "Env \<Rightarrow> nat \<Rightarrow> World \<Rightarrow> World" where
  "timer_fire env t w =
     (case map_of (timers w) t of
        None \<Rightarrow> w
      | Some tm \<Rightarrow>
          (case callback tm of
             RequestTimeout act echo tmo p \<Rightarrow> request_timeout act echo tmo p (clearTimer t w)
           | ReconnectFire n \<Rightarrow> reconnect_fire n (clearTimer t w)
           | HeartbeatCheck tmo \<Rightarrow> heartbeat_check env tmo w))"

subsection \<open>Tasks\<close>

text \<open>
  One synchronous entry into the client: a call of its interface, a handler of a socket,
  or a timer callback.
\<close>

datatype Event =
    Call_connect
  | Call_disconnect "int option" "string option"
  | Call_callAction string "json option" CallOptions
  | Call_on string nat
  | Call_off string nat
  | Socket_open nat
  | Socket_message nat string
  | Socket_error nat
  | Socket_close nat int string
  | Socket_closing nat
  | Timer_fire nat

fun handle :: "Env \<Rightarrow> Event \<Rightarrow> World \<Rightarrow> World" where
  "handle env Call_connect w = snd (connect w)"
| "handle env (Call_disconnect code reason) w = disconnect env code reason w"
| "handle env (Call_callAction act params opts) w = snd (callAction env act params opts w)"
| "handle env (Call_on name l) w = on_listener name l w"
| "handle env (Call_off name l) w = off_listener name l w"
| "handle env (Socket_open s) w = socket_open env s w"
| "handle env (Socket_message s txt) w = socket_message env s txt w"
| "handle env (Socket_error s) w = socket_error s w"
| "handle env (Socket_close s code reason) w = socket_close env s code reason w"
| "handle env (Socket_closing s) w = socket_closing s w"
| "handle env (Timer_fire t) w = timer_fire env t w"

fun run_job :: "Env \<Rightarrow> World \<Rightarrow> Job \<Rightarrow> World" where
  "run_job env w (ConnectFinally s fulfilled) = connect_finally s fulfilled w"
| "run_job env w ReconnectCatch = reconnect_catch env w"
| "run_job env w (DisconnectResume d) = disconnect_resume d w"

text \<open>
  The microtask queue is emptied after the synchronous part of a task. A reaction only
  ever queues \<open>catch\<close> reactions, and those queue nothing: two passes empty the queue.
\<close>

definition run_queue :: "Env \<Rightarrow> World \<Rightarrow> World" where
  "run_queue env w = foldl (run_job env) (w\<lparr>jobs := []\<rparr>) (jobs w)"

definition drain :: "Env \<Rightarrow> World \<Rightarrow> World" where
  "drain env w = run_queue env (run_queue env w)"

text \<open>A task: synchronous entries one after the other, then the microtasks.\<close>

definition task :: "Env \<Rightarrow> Event list \<Rightarrow> World \<Rightarrow> World" where
  "task env evs w = drain env (foldl (\<lambda>v ev. handle env ev v) w evs)"

definition run :: "(Env \<times> Event list) list \<Rightarrow> World \<Rightarrow> World" where
  "run tasks w = foldl (\<lambda>v t. task (fst t) (snd t) v) w tasks"

subsection \<open>Reading a trace\<close>

text \<open>The effects that settle the promise \<open>p\<close> of an action call.\<close>

fun settles :: "nat \<Rightarrow> Effect \<Rightarrow> bool" where
  "settles p (Resolve q _) = (q = p)"
| "settles p (Reject q _) = (q = p)"
| "settles p _ = False"

text \<open>The effects that settle any action call.\<close>

fun is_settle :: "Effect \<Rightarrow> bool" where
  "is_settle (Resolve _ _) = True"
| "is_settle (Reject _ _) = True"
| "is_settle _ = False"

text \<open>The calls of listeners with the error of exhausted reconnection.\<close>

definition is_exhausted :: "Effect \<Rightarrow> bool" where
  "is_exhausted e =
     (case e of
        Invoke _ (EvError (ReconnectExhausted _ _)) \<Rightarrow> True
      | _ \<Rightarrow> False)"

text \<open>The calls of listeners with a given payload.\<close>

definition emitted :: "ClientEvent \<Rightarrow> Effect list \<Rightarrow> Effect list" where
  "emitted ev tr = filter (\<lambda>e. case e of Invoke _ ev' \<Rightarrow> ev' = ev | _ \<Rightarrow> False) tr"

subsection \<open>Invariants and frames\<close>






subsection \<open>Example runs\<close>

text \<open>A client with three listeners, connected and open; then with one call in flight.\<close>

definition ex_options :: Options where
  "ex_options = \<lparr>reconnect = True, reconnectBaseDelayMs = 1000, reconnectMaxAttempts = 1,
     reconnectMaxDelayMs = 30000, requestTimeoutMs = 5000, heartbeatTimeoutMs = None\<rparr>"

definition ex_response :: json where
  "ex_response = JObj [(''status'', JStr ''ok''), (''retcode'', JNum 0), (''echo'', JStr ''ob_0_1'')]"

definition ex_env :: Env where
  "ex_env = \<lparr>now = 0, random = 0, close_throws = False, send_throws = False,
     JSON_parse = (\<lambda>txt. if txt = ''response'' then Some ex_response else None)\<rparr>"

definition no_call_options :: CallOptions where
  "no_call_options = \<lparr>call_timeoutMs = None, call_echo = None\<rparr>"

definition ex_open :: World where
  "ex_open = run [(ex_env, [Call_on ''response'' 7, Call_on ''timeout'' 8, Call_on ''error'' 9,
                            Call_connect]),
                  (ex_env, [Socket_open 0])] (new_client ex_options)"

definition ex_pending :: World where
  "ex_pending = run [(ex_env, [Call_callAction ''get_status'' None no_call_options])] ex_open"


text \<open>The open client after the peer has started the closing handshake.\<close>

definition ex_closing :: World where
  "ex_closing = run [(ex_env, [Socket_closing 0])] ex_open"

text \<open>
  The open client loses its socket, the reconnect timer fires and the one attempt the
  options allow fails before it opens: the runtime reports the error and the close of a
  failed connection in the same task, or the close alone.
\<close>

definition ex_lost :: World where
  "ex_lost = run [(ex_env, [Socket_close 0 1006 []])] ex_open"

definition ex_retrying :: World where
  "ex_retrying = run [(ex_env, [Timer_fire 1])] ex_lost"

definition ex_exhausted :: World where
  "ex_exhausted = run [(ex_env, [Socket_error 2, Socket_close 2 1006 []])] ex_retrying"

definition ex_exhausted_close_only :: World where
  "ex_exhausted_close_only = run [(ex_env, [Socket_close 2 1006 []])] ex_retrying"

text \<open>A client that may retry five times has a reconnect attempt in flight; the caller
  disconnects, the socket that was still connecting fails and closes, and the timer that
  is armed afterwards fires.\<close>

definition ex_options_five :: Options where
  "ex_options_five = ex_options\<lparr>reconnectMaxAttempts := 5\<rparr>"

definition ex_retrying_five :: World where
  "ex_retrying_five =
     run [(ex_env, [Call_on ''error'' 9, Call_connect]),
          (ex_env, [Socket_open 0]),
          (ex_env, [Socket_close 0 1006 []]),
          (ex_env, [Timer_fire 1])] (new_client ex_options_five)"

definition ex_disconnected :: World where
  "ex_disconnected =
     run [(ex_env, [Call_disconnect None None]),
          (ex_env, [Socket_error 2, Socket_close 2 1006 []])] ex_retrying_five"

definition ex_back :: World where
  "ex_back = run [(ex_env, [Timer_fire 4])] ex_disconnected"

text \<open>The attempt in flight opens after all.\<close>

definition ex_reopened :: World where
  "ex_reopened = run [(ex_env, [Socket_open 2])] ex_retrying"

text \<open>A second call passes the token of the call in flight as its echo.\<close>

definition same_echo_options :: CallOptions where
  "same_echo_options = \<lparr>call_timeoutMs = None, call_echo = Some ''ob_0_1''\<rparr>"

definition ex_overwritten :: World where
  "ex_overwritten = snd (callAction ex_env ''get_status'' None same_echo_options ex_pending)"

section \<open>Properties of the text codec\<close>

subsection \<open>The scanner finds only tokens of the grammar\<close>

lemma match_at_shape:
  assumes "match_at input i = Some body"
  shows "\<exists>post. drop i input = ''[CQ:'' @ body @ '']'' @ post"
    and "body \<noteq> []" and "\<forall>c \<in> set body. no_bracket c"
proof -
  define s where "s = drop i input"
  define r where "r = drop 4 s"
  from assms have pre: "take 4 s = ''[CQ:''"
    and b: "body = takeWhile no_bracket r"
    and ne: "body \<noteq> []"
    and cl: "take 1 (drop (4 + length body) s) = '']''"
    unfolding match_at_def Let_def s_def r_def by (simp_all split: if_splits)
  show "body \<noteq> []" by (rule ne)
  show "\<forall>c \<in> set body. no_bracket c"
    unfolding b by (blast dest: set_takeWhileD)
  have "drop (4 + length body) s = drop (length body) r"
    unfolding r_def by (simp add: ac_simps)
  also have "\<dots> = dropWhile no_bracket r"
    unfolding b by (rule dropWhile_eq_drop [symmetric])
  finally have d: "drop (4 + length body) s = dropWhile no_bracket r" .
  obtain post where p: "dropWhile no_bracket r = '']'' @ post"
  proof (cases "dropWhile no_bracket r")
    case Nil
    with cl d show ?thesis by simp
  next
    case (Cons x xs)
    with cl d have "x = CHR '']''" by simp
    with Cons that show ?thesis by simp
  qed
  have "s = take 4 s @ r" unfolding r_def by simp
  also have "r = takeWhile no_bracket r @ dropWhile no_bracket r" by simp
  finally have "s = ''[CQ:'' @ body @ '']'' @ post"
    unfolding pre p b [symmetric] .
  then show "\<exists>post. drop i input = ''[CQ:'' @ body @ '']'' @ post"
    unfolding s_def by blast
qed

lemma re_exec_match:
  "re_exec input i = Some (idx, body) \<Longrightarrow> match_at input idx = Some body"
proof (induction input i rule: re_exec.induct)
  case (1 input i)
  from "1.prems" have inside: "\<not> length input \<le> i"
    by (subst (asm) re_exec.simps) (simp split: if_splits)
  show ?case
  proof (cases "match_at input i")
    case None
    with inside "1.prems" have "re_exec input (Suc i) = Some (idx, body)"
      by (subst (asm) re_exec.simps) simp
    with "1.IH" [OF inside None] show ?thesis by simp
  next
    case (Some b)
    with inside "1.prems" have "idx = i \<and> b = body"
      by (subst (asm) re_exec.simps) simp
    with Some show ?thesis by simp
  qed
qed

lemma re_exec_has_token:
  assumes "re_exec input i = Some (idx, body)"
  shows "has_token input"
proof -
  from assms have m: "match_at input idx = Some body" by (rule re_exec_match)
  from match_at_shape(1) [OF m] obtain post
    where "drop idx input = ''[CQ:'' @ body @ '']'' @ post" by blast
  then have "input = take idx input @ ''[CQ:'' @ body @ '']'' @ post"
    by (metis append_take_drop_id)
  with match_at_shape(2,3) [OF m] show ?thesis
    unfolding has_token_def by blast
qed

lemma parseStringInput_no_match:
  assumes "re_exec input 0 = None"
  shows "parseStringInput input = [text_segment input]"
proof -
  from assms have "parse_loop input 0 [] = ([], 0)"
    by (subst parse_loop.simps) simp
  then show ?thesis
    by (simp add: parseStringInput_def slice_from_def)
qed

lemma no_open_bracket_no_token: "CHR ''['' \<notin> set input \<Longrightarrow> \<not> has_token input"
  by (auto simp: has_token_def)

subsection \<open>Objects\<close>











subsection \<open>Building and projecting\<close>

text \<open>
  Claim C7. Building outbound segments from the text \<open>hi\<close>, the mention \<open>123\<close> and
  the reply target \<open>9\<close> gives, in this order, a reply segment with id \<open>9\<close>, an at
  segment with qq \<open>123\<close>, a text segment holding one space and a text segment holding
  \<open>hi\<close>; the plain-text projection of that list is \<open>@123 hi\<close>.
\<close>

theorem build_then_project_example:
  "buildOutboundSegments
     \<lparr>payload_text = Some ''hi'', replyToId = Some ''9'', mentions = Some [''123'']\<rparr>
   = [\<lparr>type = ''reply'', data = [(''id'', JStr ''9'')], raw = None\<rparr>,
      \<lparr>type = ''at'', data = [(''qq'', JStr ''123'')], raw = None\<rparr>,
      \<lparr>type = ''text'', data = [(''text'', JStr '' '')], raw = None\<rparr>,
      \<lparr>type = ''text'', data = [(''text'', JStr ''hi'')], raw = None\<rparr>]
   \<and> toPlainText (buildOutboundSegments
        \<lparr>payload_text = Some ''hi'', replyToId = Some ''9'', mentions = Some [''123'']\<rparr>)
     = ''@123 hi''"
  by code_simp

subsection \<open>Input without tokens\<close>

text \<open>
  Claim C8, as stated, asks for an empty segment list on the empty string. The empty
  string is a string, so it goes through \<open>parseStringInput\<close>, whose last branch pushes one
  text segment when nothing else was pushed: the result is one text segment with empty
  text.
\<close>

theorem parse_empty_string_counterexample:
  "parseInboundCQ (InString []) = [\<lparr>type = ''text'', data = [(''text'', JStr [])], raw = None\<rparr>]
   \<and> parseInboundCQ (InString []) \<noteq> []"
  by code_simp

text \<open>
  Claim C8, amended. For every input string that contains no bracketed markup token, the
  empty string included, parsing yields exactly one text segment holding the verbatim
  input; for absent input (\<open>undefined\<close> or \<open>null\<close>) it yields the empty list.
\<close>

theorem parse_plain_text:
  "(\<not> has_token input \<longrightarrow> parseInboundCQ (InString input) = [text_segment input])
   \<and> parseInboundCQ InUndefined = [] \<and> parseInboundCQ InNull = []"
proof -
  have "parseInboundCQ (InString input) = [text_segment input]" if nt: "\<not> has_token input"
  proof -
    have "re_exec input 0 = None"
    proof (cases "re_exec input 0")
      case None
      then show ?thesis .
    next
      case (Some m)
      then have "has_token input"
        by (cases m) (auto dest: re_exec_has_token)
      with nt show ?thesis by simp
    qed
    then show ?thesis by (simp add: parseStringInput_no_match)
  qed
  then show ?thesis by simp
qed

theorem parse_plain_text_witness:
  "\<not> has_token ''hello world''
   \<and> parseInboundCQ (InString ''hello world'')
       = [\<lparr>type = ''text'', data = [(''text'', JStr ''hello world'')], raw = None\<rparr>]"
proof -
  have h: "\<not> has_token ''hello world''"
    by (rule no_open_bracket_no_token) simp
  with parse_plain_text [of "''hello world''"] show ?thesis
    by (simp add: text_segment_def)
qed

subsection \<open>Tokens of unknown type\<close>




section \<open>Properties of the transport client\<close>

subsection \<open>The example runs, evaluated\<close>

text \<open>Each example world is computed once; later evaluations start from these values.\<close>

lemma ex_open_value [code]:
  "ex_open =
   \<lparr>options =
      \<lparr>reconnect = True, reconnectBaseDelayMs = 1000,
         reconnectMaxAttempts = 1, reconnectMaxDelayMs = 30000,
         requestTimeoutMs = 5000, heartbeatTimeoutMs = None\<rparr>,
      ws = Some 0, state = st_open, manuallyClosed = False,
      connectPromise = None, reconnectAttempt = 0, reconnectTimer = None,
      lastInboundAt = 0, heartbeatTimer = None, echoSeq = 0,
      listeners = [(''response'', [7]), (''timeout'', [8]), (''error'', [9])],
      pendingRequests = [],
      sockets =
        [(0, \<lparr>readyState = WS_OPEN, opened = True, settled = True,
                catchers = 0, once_close = []\<rparr>)],
      timers = [], jobs = [], awaiting = [], next_handle = 1,
      trace = [WsNew 0, ConnectResolved 0]\<rparr>"
  by code_simp

lemma ex_pending_value [code]:
  "ex_pending =
   \<lparr>options =
      \<lparr>reconnect = True, reconnectBaseDelayMs = 1000,
         reconnectMaxAttempts = 1, reconnectMaxDelayMs = 30000,
         requestTimeoutMs = 5000, heartbeatTimeoutMs = None\<rparr>,
      ws = Some 0, state = st_open, manuallyClosed = False,
      connectPromise = None, reconnectAttempt = 0, reconnectTimer = None,
      lastInboundAt = 0, heartbeatTimer = None, echoSeq = 1,
      listeners = [(''response'', [7]), (''timeout'', [8]), (''error'', [9])],
      pendingRequests =
        [(''ob_0_1'',
          \<lparr>action = ''get_status'', timeoutMs = 5000, promise = 1,
             timer = 2\<rparr>)],
      sockets =
        [(0, \<lparr>readyState = WS_OPEN, opened = True, settled = True,
                catchers = 0, once_close = []\<rparr>)],
      timers =
        [(2, \<lparr>delay = Num 5000,
                callback = RequestTimeout ''get_status'' ''ob_0_1'' 5000 1\<rparr>)],
      jobs = [], awaiting = [], next_handle = 3,
      trace =
        [WsNew 0, ConnectResolved 0,
         WsSend 0
          (JObj
            [(''action'', JStr ''get_status''),
             (''echo'', JStr ''ob_0_1'')])]\<rparr>"
  by code_simp

lemma ex_closing_value [code]:
  "ex_closing =
   \<lparr>options =
      \<lparr>reconnect = True, reconnectBaseDelayMs = 1000,
         reconnectMaxAttempts = 1, reconnectMaxDelayMs = 30000,
         requestTimeoutMs = 5000, heartbeatTimeoutMs = None\<rparr>,
      ws = Some 0, state = st_open, manuallyClosed = False,
      connectPromise = None, reconnectAttempt = 0, reconnectTimer = None,
      lastInboundAt = 0, heartbeatTimer = None, echoSeq = 0,
      listeners = [(''response'', [7]), (''timeout'', [8]), (''error'', [9])],
      pendingRequests = [],
      sockets =
        [(0, \<lparr>readyState = WS_CLOSING, opened = True, settled = True,
                catchers = 0, once_close = []\<rparr>)],
      timers = [], jobs = [], awaiting = [], next_handle = 1,
      trace = [WsNew 0, ConnectResolved 0]\<rparr>"
  by code_simp

lemma ex_lost_value [code]:
  "ex_lost =
   \<lparr>options =
      \<lparr>reconnect = True, reconnectBaseDelayMs = 1000,
         reconnectMaxAttempts = 1, reconnectMaxDelayMs = 30000,
         requestTimeoutMs = 5000, heartbeatTimeoutMs = None\<rparr>,
      ws = None, state = st_reconnecting, manuallyClosed = False,
      connectPromise = None, reconnectAttempt = 0, reconnectTimer = Some 1,
      lastInboundAt = 0, heartbeatTimer = None, echoSeq = 0,
      listeners = [(''response'', [7]), (''timeout'', [8]), (''error'', [9])],
      pendingRequests = [],
      sockets =
        [(0, \<lparr>readyState = WS_CLOSED, opened = True, settled = True,
                catchers = 0, once_close = []\<rparr>)],
      timers = [(1, \<lparr>delay = Num 1000, callback = ReconnectFire 1\<rparr>)],
      jobs = [], awaiting = [], next_handle = 2,
      trace = [WsNew 0, ConnectResolved 0]\<rparr>"
  by code_simp

lemma ex_retrying_value [code]:
  "ex_retrying =
   \<lparr>options =
      \<lparr>reconnect = True, reconnectBaseDelayMs = 1000,
         reconnectMaxAttempts = 1, reconnectMaxDelayMs = 30000,
         requestTimeoutMs = 5000, heartbeatTimeoutMs = None\<rparr>,
      ws = Some 2, state = st_connecting, manuallyClosed = False,
      connectPromise = Some 2, reconnectAttempt = 1, reconnectTimer = None,
      lastInboundAt = 0, heartbeatTimer = None, echoSeq = 0,
      listeners = [(''response'', [7]), (''timeout'', [8]), (''error'', [9])],
      pendingRequests = [],
      sockets =
        [(0, \<lparr>readyState = WS_CLOSED, opened = True, settled = True,
                catchers = 0, once_close = []\<rparr>),
         (2, \<lparr>readyState = WS_CONNECTING, opened = False, settled = False,
                catchers = 1, once_close = []\<rparr>)],
      timers = [], jobs = [], awaiting = [], next_handle = 3,
      trace = [WsNew 0, ConnectResolved 0, WsNew 2]\<rparr>"
  by code_simp

lemma ex_exhausted_value [code]:
  "ex_exhausted =
   \<lparr>options =
      \<lparr>reconnect = True, reconnectBaseDelayMs = 1000,
         reconnectMaxAttempts = 1, reconnectMaxDelayMs = 30000,
         requestTimeoutMs = 5000, heartbeatTimeoutMs = None\<rparr>,
      ws = None, state = st_closed, manuallyClosed = False,
      connectPromise = None, reconnectAttempt = 1, reconnectTimer = None,
      lastInboundAt = 0, heartbeatTimer = None, echoSeq = 0,
      listeners = [(''response'', [7]), (''timeout'', [8]), (''error'', [9])],
      pendingRequests = [],
      sockets =
        [(0, \<lparr>readyState = WS_CLOSED, opened = True, settled = True,
                catchers = 0, once_close = []\<rparr>),
         (2, \<lparr>readyState = WS_CLOSED, opened = False, settled = True,
                catchers = 1, once_close = []\<rparr>)],
      timers = [], jobs = [], awaiting = [], next_handle = 3,
      trace =
        [WsNew 0, ConnectResolved 0, WsNew 2,
         Invoke 9 (EvError WebSocketError), ConnectRejected 2 ConnectFailed,
         Invoke 9 (EvError (ReconnectExhausted 1 ''close:1006'')),
         Invoke 9 (EvError ReconnectAttemptFailed),
         Invoke 9 (EvError (ReconnectExhausted 1 ''connect_failed''))]\<rparr>"
  by code_simp

lemma ex_exhausted_close_only_value [code]:
  "ex_exhausted_close_only =
   \<lparr>options =
      \<lparr>reconnect = True, reconnectBaseDelayMs = 1000,
         reconnectMaxAttempts = 1, reconnectMaxDelayMs = 30000,
         requestTimeoutMs = 5000, heartbeatTimeoutMs = None\<rparr>,
      ws = None, state = st_closed, manuallyClosed = False,
      connectPromise = None, reconnectAttempt = 1, reconnectTimer = None,
      lastInboundAt = 0, heartbeatTimer = None, echoSeq = 0,
      listeners = [(''response'', [7]), (''timeout'', [8]), (''error'', [9])],
      pendingRequests = [],
      sockets =
        [(0, \<lparr>readyState = WS_CLOSED, opened = True, settled = True,
                catchers = 0, once_close = []\<rparr>),
         (2, \<lparr>readyState = WS_CLOSED, opened = False, settled = True,
                catchers = 1, once_close = []\<rparr>)],
      timers = [], jobs = [], awaiting = [], next_handle = 3,
      trace =
        [WsNew 0, ConnectResolved 0, WsNew 2,
         Invoke 9 (EvError (ReconnectExhausted 1 ''close:1006'')),
         ConnectRejected 2 (ClosedBeforeOpen 1006 []),
         Invoke 9 (EvError ReconnectAttemptFailed),
         Invoke 9 (EvError (ReconnectExhausted 1 ''connect_failed''))]\<rparr>"
  by code_simp

lemma ex_retrying_five_value [code]:
  "ex_retrying_five =
   \<lparr>options =
      \<lparr>reconnect = True, reconnectBaseDelayMs = 1000,
         reconnectMaxAttempts = 5, reconnectMaxDelayMs = 30000,
         requestTimeoutMs = 5000, heartbeatTimeoutMs = None\<rparr>,
      ws = Some 2, state = st_connecting, manuallyClosed = False,
      connectPromise = Some 2, reconnectAttempt = 1, reconnectTimer = None,
      lastInboundAt = 0, heartbeatTimer = None, echoSeq = 0,
      listeners = [(''error'', [9])], pendingRequests = [],
      sockets =
        [(0, \<lparr>readyState = WS_CLOSED, opened = True, settled = True,
                catchers = 0, once_close = []\<rparr>),
         (2, \<lparr>readyState = WS_CONNECTING, opened = False, settled = False,
                catchers = 1, once_close = []\<rparr>)],
      timers = [], jobs = [], awaiting = [], next_handle = 3,
      trace = [WsNew 0, ConnectResolved 0, WsNew 2]\<rparr>"
  by code_simp

lemma ex_disconnected_value [code]:
  "ex_disconnected =
   \<lparr>options =
      \<lparr>reconnect = True, reconnectBaseDelayMs = 1000,
         reconnectMaxAttempts = 5, reconnectMaxDelayMs = 30000,
         requestTimeoutMs = 5000, heartbeatTimeoutMs = None\<rparr>,
      ws = None, state = st_reconnecting, manuallyClosed = True,
      connectPromise = None, reconnectAttempt = 1, reconnectTimer = Some 4,
      lastInboundAt = 0, heartbeatTimer = None, echoSeq = 0,
      listeners = [(''error'', [9])], pendingRequests = [],
      sockets =
        [(0, \<lparr>readyState = WS_CLOSED, opened = True, settled = True,
                catchers = 0, once_close = []\<rparr>),
         (2, \<lparr>readyState = WS_CLOSED, opened = False, settled = True,
                catchers = 1, once_close = []\<rparr>)],
      timers = [(4, \<lparr>delay = Num 2000, callback = ReconnectFire 2\<rparr>)],
      jobs = [], awaiting = [], next_handle = 5,
      trace =
        [WsNew 0, ConnectResolved 0, WsNew 2,
         WsClose 2 1000 ''manual disconnect'',
         Invoke 9 (EvError WebSocketError), ConnectRejected 2 ConnectFailed,
         DisconnectResolved 3, Invoke 9 (EvError ReconnectAttemptFailed)]\<rparr>"
  by code_simp

lemma ex_back_value [code]:
  "ex_back =
   \<lparr>options =
      \<lparr>reconnect = True, reconnectBaseDelayMs = 1000,
         reconnectMaxAttempts = 5, reconnectMaxDelayMs = 30000,
         requestTimeoutMs = 5000, heartbeatTimeoutMs = None\<rparr>,
      ws = Some 5, state = st_connecting, manuallyClosed = False,
      connectPromise = Some 5, reconnectAttempt = 2, reconnectTimer = None,
      lastInboundAt = 0, heartbeatTimer = None, echoSeq = 0,
      listeners = [(''error'', [9])], pendingRequests = [],
      sockets =
        [(0, \<lparr>readyState = WS_CLOSED, opened = True, settled = True,
                catchers = 0, once_close = []\<rparr>),
         (2, \<lparr>readyState = WS_CLOSED, opened = False, settled = True,
                catchers = 1, once_close = []\<rparr>),
         (5, \<lparr>readyState = WS_CONNECTING, opened = False, settled = False,
                catchers = 1, once_close = []\<rparr>)],
      timers = [], jobs = [], awaiting = [], next_handle = 6,
      trace =
        [WsNew 0, ConnectResolved 0, WsNew 2,
         WsClose 2 1000 ''manual disconnect'',
         Invoke 9 (EvError WebSocketError), ConnectRejected 2 ConnectFailed,
         DisconnectResolved 3, Invoke 9 (EvError ReconnectAttemptFailed),
         WsNew 5]\<rparr>"
  by code_simp

lemma ex_reopened_value [code]:
  "ex_reopened =
   \<lparr>options =
      \<lparr>reconnect = True, reconnectBaseDelayMs = 1000,
         reconnectMaxAttempts = 1, reconnectMaxDelayMs = 30000,
         requestTimeoutMs = 5000, heartbeatTimeoutMs = None\<rparr>,
      ws = Some 2, state = st_open, manuallyClosed = False,
      connectPromise = None, reconnectAttempt = 0, reconnectTimer = None,
      lastInboundAt = 0, heartbeatTimer = None, echoSeq = 0,
      listeners = [(''response'', [7]), (''timeout'', [8]), (''error'', [9])],
      pendingRequests = [],
      sockets =
        [(0, \<lparr>readyState = WS_CLOSED, opened = True, settled = True,
                catchers = 0, once_close = []\<rparr>),
         (2, \<lparr>readyState = WS_OPEN, opened = True, settled = True,
                catchers = 1, once_close = []\<rparr>)],
      timers = [], jobs = [], awaiting = [], next_handle = 3,
      trace = [WsNew 0, ConnectResolved 0, WsNew 2, ConnectResolved 2]\<rparr>"
  by code_simp

lemma ex_overwritten_value [code]:
  "ex_overwritten =
   \<lparr>options =
      \<lparr>reconnect = True, reconnectBaseDelayMs = 1000,
         reconnectMaxAttempts = 1, reconnectMaxDelayMs = 30000,
         requestTimeoutMs = 5000, heartbeatTimeoutMs = None\<rparr>,
      ws = Some 0, state = st_open, manuallyClosed = False,
      connectPromise = None, reconnectAttempt = 0, reconnectTimer = None,
      lastInboundAt = 0, heartbeatTimer = None, echoSeq = 1,
      listeners = [(''response'', [7]), (''timeout'', [8]), (''error'', [9])],
      pendingRequests =
        [(''ob_0_1'',
          \<lparr>action = ''get_status'', timeoutMs = 5000, promise = 3,
             timer = 4\<rparr>)],
      sockets =
        [(0, \<lparr>readyState = WS_OPEN, opened = True, settled = True,
                catchers = 0, once_close = []\<rparr>)],
      timers =
        [(2, \<lparr>delay = Num 5000,
                callback = RequestTimeout ''get_status'' ''ob_0_1'' 5000 1\<rparr>),
         (4, \<lparr>delay = Num 5000,
                callback = RequestTimeout ''get_status'' ''ob_0_1'' 5000 3\<rparr>)],
      jobs = [], awaiting = [], next_handle = 5,
      trace =
        [WsNew 0, ConnectResolved 0,
         WsSend 0
          (JObj
            [(''action'', JStr ''get_status''), (''echo'', JStr ''ob_0_1'')]),
         WsSend 0
          (JObj
            [(''action'', JStr ''get_status''),
             (''echo'', JStr ''ob_0_1'')])]\<rparr>"
  by code_simp


subsection \<open>Maps, timers and traces\<close>

lemma Map_get_delete [simp]: "Map_get (Map_delete m k) k = None"
  by (induction m) (auto simp: Map_get_def Map_delete_def)

lemma map_of_filter_fst [simp]: "map_of (filter (\<lambda>e. fst e \<noteq> t) xs) t = None"
  by (induction xs) auto

lemma filter_settle_invokes [simp]: "filter is_settle (map (\<lambda>l. Invoke l ev) ls) = []"
  by (induction ls) auto

subsection \<open>A response meets its pending request\<close>

text \<open>
  Claim C1. For every inbound frame that parses as JSON and carries a string \<open>status\<close> and
  a numeric \<open>retcode\<close>: if its \<open>echo\<close> is the token of a request in the table of pending
  requests, then the promise of that request is resolved with the envelope, once (the
  frame settles no other call), its timer is disarmed and the table holds no entry under
  the token afterwards. Before that the \<open>raw\<close> and \<open>response\<close> listeners are called.
\<close>

theorem response_resolves_pending:
  assumes "JSON_parse env txt = Some payload"
    and "isApiResponsePacket payload"
    and "field payload ''echo'' = Some (JStr e)"
    and "Map_get (pendingRequests w) e = Some pending"
  shows "trace (handleInbound env txt w) =
           trace w @ map (\<lambda>l. Invoke l (EvRaw Inbound payload)) (listeners_of w ''raw'')
                   @ map (\<lambda>l. Invoke l (EvResponse payload)) (listeners_of w ''response'')
                   @ [Resolve (promise pending) payload]
       \<and> filter is_settle (drop (length (trace w)) (trace (handleInbound env txt w)))
           = [Resolve (promise pending) payload]
       \<and> pendingRequests (handleInbound env txt w) = Map_delete (pendingRequests w) e
       \<and> Map_get (pendingRequests (handleInbound env txt w)) e = None
       \<and> timers (handleInbound env txt w) = filter (\<lambda>x. fst x \<noteq> timer pending) (timers w)
       \<and> map_of (timers (handleInbound env txt w)) (timer pending) = None"
proof -
  let ?w' = "handleInbound env txt w"
  have tr: "trace ?w' =
           trace w @ map (\<lambda>l. Invoke l (EvRaw Inbound payload)) (listeners_of w ''raw'')
                   @ map (\<lambda>l. Invoke l (EvResponse payload)) (listeners_of w ''response'')
                   @ [Resolve (promise pending) payload]"
    using assms
    by (simp add: handleInbound_def Let_def emit_def effect_def clearTimer_def listeners_of_def)
  have pr: "pendingRequests ?w' = Map_delete (pendingRequests w) e"
    using assms
    by (simp add: handleInbound_def Let_def emit_def effect_def clearTimer_def)
  have tm: "timers ?w' = filter (\<lambda>x. fst x \<noteq> timer pending) (timers w)"
    using assms
    by (simp add: handleInbound_def Let_def emit_def effect_def clearTimer_def)
  show ?thesis
    unfolding tr pr tm by simp
qed



theorem response_resolves_pending_witness:
  "JSON_parse ex_env ''response'' = Some ex_response
   \<and> isApiResponsePacket ex_response
   \<and> field ex_response ''echo'' = Some (JStr ''ob_0_1'')
   \<and> Map_get (pendingRequests ex_pending) ''ob_0_1''
       = Some \<lparr>action = ''get_status'', timeoutMs = 5000, promise = 1, timer = 2\<rparr>
   \<and> trace (handleInbound ex_env ''response'' ex_pending)
       = trace ex_pending @ [Invoke 7 (EvResponse ex_response), Resolve 1 ex_response]
   \<and> pendingRequests (handleInbound ex_env ''response'' ex_pending) = []
   \<and> timers (handleInbound ex_env ''response'' ex_pending) = []"
proof -
  have h1: "JSON_parse ex_env ''response'' = Some ex_response" by (simp add: ex_env_def)
  have h2: "isApiResponsePacket ex_response" by code_simp
  have h3: "field ex_response ''echo'' = Some (JStr ''ob_0_1'')" by code_simp
  have h4: "Map_get (pendingRequests ex_pending) ''ob_0_1''
       = Some \<lparr>action = ''get_status'', timeoutMs = 5000, promise = 1, timer = 2\<rparr>"
    by code_simp
  have l1: "listeners_of ex_pending ''raw'' = []" by code_simp
  have l2: "listeners_of ex_pending ''response'' = [7]" by code_simp
  have p: "Map_delete (pendingRequests ex_pending) ''ob_0_1'' = []" by code_simp
  have t: "filter (\<lambda>x. fst x \<noteq> 2) (timers ex_pending) = []" by code_simp
  from response_resolves_pending [OF h1 h2 h3 h4] h1 h2 h3 h4 show ?thesis
    by (simp add: l1 l2 p t)
qed

subsection \<open>A request times out\<close>

lemma handleInbound_no_entry:
  assumes "JSON_parse env txt = Some payload"
    and "isApiResponsePacket payload"
    and "field payload ''echo'' = Some (JStr e)"
    and "Map_get (pendingRequests w) e = None"
  shows "trace (handleInbound env txt w) =
           trace w @ map (\<lambda>l. Invoke l (EvRaw Inbound payload)) (listeners_of w ''raw'')
                   @ map (\<lambda>l. Invoke l (EvResponse payload)) (listeners_of w ''response'')"
    and "pendingRequests (handleInbound env txt w) = pendingRequests w"
    and "timers (handleInbound env txt w) = timers w"
  using assms
  by (simp_all add: handleInbound_def Let_def emit_def listeners_of_def)

text \<open>
  Claim C2. When the timer of a pending request fires, the listeners of \<open>timeout\<close> are
  called once with the action, the token and the timeout, the call is rejected with the
  timeout error, once, the table holds no entry under the token and the timer is no
  longer armed. A response that arrives while the table holds no entry under that token
  (as is the case right after the timeout) resolves and rejects nothing and leaves the
  table as it is.
\<close>

theorem timeout_rejects_once:
  assumes "map_of (timers w) t = Some tm"
    and "callback tm = RequestTimeout act echo tmo p"
  shows "trace (timer_fire env t w) =
           trace w @ map (\<lambda>l. Invoke l (EvTimeout act echo tmo)) (listeners_of w ''timeout'')
                   @ [Reject p (ActionTimeout act tmo)]
       \<and> filter is_settle (drop (length (trace w)) (trace (timer_fire env t w)))
           = [Reject p (ActionTimeout act tmo)]
       \<and> Map_get (pendingRequests (timer_fire env t w)) echo = None
       \<and> map_of (timers (timer_fire env t w)) t = None
       \<and> (\<forall>w2 env2 txt payload.
             Map_get (pendingRequests w2) echo = None
             \<and> JSON_parse env2 txt = Some payload \<and> isApiResponsePacket payload
             \<and> field payload ''echo'' = Some (JStr echo)
             \<longrightarrow> filter is_settle (drop (length (trace w2)) (trace (handleInbound env2 txt w2))) = []
                 \<and> pendingRequests (handleInbound env2 txt w2) = pendingRequests w2)"
proof -
  let ?w1 = "timer_fire env t w"
  have tr: "trace ?w1 =
           trace w @ map (\<lambda>l. Invoke l (EvTimeout act echo tmo)) (listeners_of w ''timeout'')
                   @ [Reject p (ActionTimeout act tmo)]"
    using assms
    by (simp add: timer_fire_def request_timeout_def Let_def emit_def effect_def clearTimer_def
        listeners_of_def)
  have pr: "pendingRequests ?w1 = Map_delete (pendingRequests w) echo"
    using assms
    by (simp add: timer_fire_def request_timeout_def Let_def emit_def effect_def clearTimer_def)
  have tm: "timers ?w1 = filter (\<lambda>x. fst x \<noteq> t) (timers w)"
    using assms
    by (simp add: timer_fire_def request_timeout_def Let_def emit_def effect_def clearTimer_def)
  have late: "\<forall>w2 env2 txt payload.
             Map_get (pendingRequests w2) echo = None
             \<and> JSON_parse env2 txt = Some payload \<and> isApiResponsePacket payload
             \<and> field payload ''echo'' = Some (JStr echo)
             \<longrightarrow> filter is_settle (drop (length (trace w2)) (trace (handleInbound env2 txt w2))) = []
                 \<and> pendingRequests (handleInbound env2 txt w2) = pendingRequests w2"
  proof (intro allI impI, elim conjE)
    fix w2 :: World and env2 :: Env and frame :: string and payload :: json
    assume a: "Map_get (pendingRequests w2) echo = None" "JSON_parse env2 frame = Some payload"
      "isApiResponsePacket payload" "field payload ''echo'' = Some (JStr echo)"
    show "filter is_settle (drop (length (trace w2)) (trace (handleInbound env2 frame w2))) = []
        \<and> pendingRequests (handleInbound env2 frame w2) = pendingRequests w2"
      using handleInbound_no_entry(1,2) [OF a(2,3,4,1)] by simp
  qed
  have c2: "filter is_settle (drop (length (trace w)) (trace ?w1))
           = [Reject p (ActionTimeout act tmo)]"
    unfolding tr by simp
  have c3: "Map_get (pendingRequests ?w1) echo = None"
    unfolding pr by simp
  have c4: "map_of (timers ?w1) t = None"
    unfolding tm by simp
  from tr c2 c3 c4 late show ?thesis by blast
qed

theorem timeout_rejects_once_witness:
  "map_of (timers ex_pending) 2
     = Some \<lparr>delay = Num 5000, callback = RequestTimeout ''get_status'' ''ob_0_1'' 5000 1\<rparr>
   \<and> trace (timer_fire ex_env 2 ex_pending)
       = trace ex_pending @ [Invoke 8 (EvTimeout ''get_status'' ''ob_0_1'' 5000),
                             Reject 1 (ActionTimeout ''get_status'' 5000)]
   \<and> pendingRequests (timer_fire ex_env 2 ex_pending) = []
   \<and> JSON_parse ex_env ''response'' = Some ex_response
   \<and> isApiResponsePacket ex_response
   \<and> field ex_response ''echo'' = Some (JStr ''ob_0_1'')
   \<and> filter is_settle (drop (length (trace (timer_fire ex_env 2 ex_pending)))
         (trace (handleInbound ex_env ''response'' (timer_fire ex_env 2 ex_pending)))) = []"
proof -
  let ?tm = "\<lparr>delay = Num 5000, callback = RequestTimeout ''get_status'' ''ob_0_1'' 5000 1\<rparr>"
  have h1: "map_of (timers ex_pending) 2 = Some ?tm" by code_simp
  have h2: "callback ?tm = RequestTimeout ''get_status'' ''ob_0_1'' 5000 1" by simp
  have g1: "JSON_parse ex_env ''response'' = Some ex_response" by (simp add: ex_env_def)
  have g2: "isApiResponsePacket ex_response" by code_simp
  have g3: "field ex_response ''echo'' = Some (JStr ''ob_0_1'')" by code_simp
  have l: "listeners_of ex_pending ''timeout'' = [8]" by code_simp
  have p: "pendingRequests (timer_fire ex_env 2 ex_pending) = []" by code_simp
  note T = timeout_rejects_once [OF h1 h2, of ex_env]
  have g0: "Map_get (pendingRequests (timer_fire ex_env 2 ex_pending)) ''ob_0_1'' = None"
    by (simp add: p Map_get_def)
  from T have "trace (timer_fire ex_env 2 ex_pending)
       = trace ex_pending @ [Invoke 8 (EvTimeout ''get_status'' ''ob_0_1'' 5000),
                             Reject 1 (ActionTimeout ''get_status'' 5000)]"
    by (simp add: l)
  moreover have "filter is_settle (drop (length (trace (timer_fire ex_env 2 ex_pending)))
         (trace (handleInbound ex_env ''response'' (timer_fire ex_env 2 ex_pending)))) = []"
    using T [THEN conjunct2, THEN conjunct2, THEN conjunct2, THEN conjunct2, rule_format,
        of "timer_fire ex_env 2 ex_pending" ex_env "''response''" ex_response] g0 g1 g2 g3
    by simp
  ultimately show ?thesis using h1 p g1 g2 g3 by simp
qed


subsection \<open>callAction\<close>

lemma Map_get_set [simp]: "Map_get (Map_set m k v) k = Some v"
  by (induction m k v rule: Map_set.induct) (auto simp: Map_get_def)

lemma Map_delete_set [simp]: "Map_delete (Map_set m k v) k = Map_delete m k"
  by (induction m k v rule: Map_set.induct) (auto simp: Map_delete_def)








subsection \<open>What every entry into the client keeps\<close>



lemma rejectAll_fold:
  "foldl (reject_entry err) w es =
     w\<lparr>timers := filter (\<lambda>x. fst x \<notin> set (map (\<lambda>entry. timer (snd entry)) es)) (timers w),
       trace := trace w @ map (\<lambda>entry. Reject (promise (snd entry)) err) es,
       pendingRequests := filter (\<lambda>x. fst x \<notin> set (map fst es)) (pendingRequests w)\<rparr>"
proof (induction es arbitrary: w)
  case Nil
  then show ?case by simp
next
  case (Cons entry es)
  show ?case
    by (simp only: foldl_Cons Cons.IH)
      (simp add: reject_entry_def Let_def clearTimer_def effect_def Map_delete_def conj_commute
        cong: filter_cong)
qed

lemma rejectAllPending_eq:
  "rejectAllPending err w =
     w\<lparr>timers := filter (\<lambda>x. fst x \<notin> set (map (\<lambda>entry. timer (snd entry)) (pendingRequests w)))
                  (timers w),
       trace := trace w @ map (\<lambda>entry. Reject (promise (snd entry)) err) (pendingRequests w),
       pendingRequests := []\<rparr>"
proof -
  have "filter (\<lambda>x. fst x \<notin> set (map fst (pendingRequests w))) (pendingRequests w) = []"
    by (simp add: filter_empty_conv)
  then show ?thesis
    by (simp add: rejectAllPending_def rejectAll_fold)
qed






lemma filter_settles_invokes [simp]: "filter (settles p) (map (\<lambda>l. Invoke l ev) ls) = []"
  by (induction ls) auto























































subsection \<open>The microtask queue\<close>

lemma jobs_run_job:
  "jobs (run_job env w j) =
     jobs w @ (case j of
                 ConnectFinally s fulfilled \<Rightarrow>
                   if fulfilled then []
                   else replicate (case socket_of w s of None \<Rightarrow> 0 | Some sk \<Rightarrow> catchers sk)
                          ReconnectCatch
               | _ \<Rightarrow> [])"
  by (cases j)
    (simp_all add: connect_finally_def Let_def reconnect_catch_def disconnect_resume_def
      scheduleReconnect_def emit_def effect_def rejectAllPending_eq transitionTo_def
      setTimer_def split_beta socket_of_def)

lemma jobs_first_pass:
  "list_all (\<lambda>j. j = ReconnectCatch) (jobs w)
   \<Longrightarrow> list_all (\<lambda>j. j = ReconnectCatch) (jobs (foldl (run_job env) w js))"
proof (induction js arbitrary: w)
  case Nil
  then show ?case by simp
next
  case (Cons j js)
  have "list_all (\<lambda>j. j = ReconnectCatch) (jobs (run_job env w j))"
    unfolding jobs_run_job using Cons.prems by (cases j) (auto simp: list_all_iff)
  then show ?case using Cons.IH by simp
qed

lemma jobs_second_pass:
  "list_all (\<lambda>j. j = ReconnectCatch) js \<Longrightarrow> jobs (foldl (run_job env) w js) = jobs w"
proof (induction js arbitrary: w)
  case Nil
  then show ?case by simp
next
  case (Cons j js)
  then have "j = ReconnectCatch" by simp
  then have "jobs (run_job env w j) = jobs w" unfolding jobs_run_job by simp
  with Cons show ?case by simp
qed

lemma drain_empties_queue: "jobs (drain env w) = []"
proof -
  let ?w1 = "run_queue env w"
  have "list_all (\<lambda>j. j = ReconnectCatch) (jobs ?w1)"
    unfolding run_queue_def by (rule jobs_first_pass) simp
  then have "jobs (foldl (run_job env) (?w1\<lparr>jobs := []\<rparr>) (jobs ?w1)) = jobs (?w1\<lparr>jobs := []\<rparr>)"
    by (rule jobs_second_pass)
  then show ?thesis by (simp add: drain_def run_queue_def)
qed

subsection \<open>The attempt counter\<close>

lemma attempt_primitives [simp]:
  "reconnectAttempt (emit ev w) = reconnectAttempt w"
  "reconnectAttempt (effect e w) = reconnectAttempt w"
  "reconnectAttempt (enqueue j w) = reconnectAttempt w"
  "reconnectAttempt (update_socket s f w) = reconnectAttempt w"
  "reconnectAttempt (transitionTo st w) = reconnectAttempt w"
  "reconnectAttempt (clearTimer t w) = reconnectAttempt w"
  "reconnectAttempt (snd (setTimer d cb w)) = reconnectAttempt w"
  "reconnectAttempt (on_listener name l w) = reconnectAttempt w"
  "reconnectAttempt (off_listener name l w) = reconnectAttempt w"
  "reconnectAttempt (socket_closing s w) = reconnectAttempt w"
  "reconnectAttempt (snd (generateEcho env w)) = reconnectAttempt w"
  "reconnectAttempt (rejectAllPending err w) = reconnectAttempt w"
  by (simp_all add: emit_def effect_def enqueue_def update_socket_def transitionTo_def
      clearTimer_def setTimer_def on_listener_def off_listener_def socket_closing_def
      generateEcho_def rejectAllPending_eq Let_def)

lemma attempt_level1 [simp]:
  "reconnectAttempt (clearReconnectTimer w) = reconnectAttempt w"
  "reconnectAttempt (stopHeartbeatMonitor w) = reconnectAttempt w"
  "reconnectAttempt (snd (ws_close env s code reason w)) = reconnectAttempt w"
  "reconnectAttempt (resolve_waiter d w) = reconnectAttempt w"
  "reconnectAttempt (connect_finally s fulfilled w) = reconnectAttempt w"
  "reconnectAttempt (request_timeout act echo tmo q w) = reconnectAttempt w"
  "reconnectAttempt (reject_connect s err w) = reconnectAttempt w"
  by (simp_all add: clearReconnectTimer_def stopHeartbeatMonitor_def ws_close_def
      resolve_waiter_def connect_finally_def request_timeout_def reject_connect_def Let_def
      split: option.splits)

lemma attempt_startHeartbeatMonitor [simp]:
  "reconnectAttempt (startHeartbeatMonitor w) = reconnectAttempt w"
  by (simp add: startHeartbeatMonitor_def Let_def split_beta split: option.splits)

lemma attempt_scheduleReconnect [simp]:
  "reconnectAttempt (scheduleReconnect env reason w) = reconnectAttempt w"
  by (simp add: scheduleReconnect_def Let_def split_beta)

lemma attempt_handleInbound [simp]:
  "reconnectAttempt (handleInbound env frame w) = reconnectAttempt w"
proof (cases "JSON_parse env frame")
  case None
  then show ?thesis by (simp add: handleInbound_def)
next
  case (Some payload)
  have "reconnectAttempt (case field payload ''echo'' of
                Some (JStr e) \<Rightarrow>
                  (case Map_get (pendingRequests v) e of
                     None \<Rightarrow> v
                   | Some pending \<Rightarrow>
                       (let w3 = clearTimer (timer pending) v;
                            w4 = w3\<lparr>pendingRequests := Map_delete (pendingRequests w3) e\<rparr>
                        in effect (Resolve (promise pending) payload) w4))
              | _ \<Rightarrow> v) = reconnectAttempt v" for v
  proof (cases "field payload ''echo''")
    case None
    then show ?thesis by simp
  next
    case (Some x)
    then show ?thesis by (cases x) (simp_all add: Let_def split: option.splits)
  qed
  with Some show ?thesis
    by (simp add: handleInbound_def Let_def)
qed

lemma attempt_level2 [simp]:
  "reconnectAttempt (snd (connect w)) = reconnectAttempt w"
  "reconnectAttempt (disconnect_resume d w) = reconnectAttempt w"
  "reconnectAttempt (heartbeat_check env tmo w) = reconnectAttempt w"
  "reconnectAttempt (handleSocketClose env code reason w) = reconnectAttempt w"
  "reconnectAttempt (reconnect_catch env w) = reconnectAttempt w"
  "reconnectAttempt (socket_message env s frame w) = reconnectAttempt w"
  "reconnectAttempt (socket_error s w) = reconnectAttempt w"
  by (simp_all add: connect_def disconnect_resume_def heartbeat_check_def handleSocketClose_def
      reconnect_catch_def socket_message_def socket_error_def Let_def split_beta
      split: option.splits)

lemma attempt_disconnect [simp]:
  "reconnectAttempt (disconnect env code0 reason0 w) = reconnectAttempt w"
  by (simp add: disconnect_def Let_def split_beta split: option.splits)

lemma attempt_callAction [simp]:
  "reconnectAttempt (snd (callAction env act params opts w)) = reconnectAttempt w"
  by (simp add: callAction_def Let_def split_beta split: option.splits)

lemma attempt_foldl_resolve_waiter [simp]:
  "reconnectAttempt (foldl (\<lambda>v d. resolve_waiter d v) w ds) = reconnectAttempt w"
  by (induction ds arbitrary: w) simp_all

lemma attempt_socket_close [simp]:
  "reconnectAttempt (socket_close env s code reason w) = reconnectAttempt w"
  by (simp add: socket_close_def Let_def split: option.splits)

lemma attempt_run_job [simp]: "reconnectAttempt (run_job env w j) = reconnectAttempt w"
  by (cases j) simp_all

lemma attempt_foldl_run_job [simp]:
  "reconnectAttempt (foldl (run_job env) w js) = reconnectAttempt w"
  by (induction js arbitrary: w) simp_all

lemma attempt_drain [simp]: "reconnectAttempt (drain env w) = reconnectAttempt w"
  by (simp add: drain_def run_queue_def)


lemma attempt_socket_open_unknown:
  "socket_of w s = None \<Longrightarrow> socket_open env s w = w"
  by (simp add: socket_open_def)

lemma attempt_reconnect_fire [simp]: "reconnectAttempt (reconnect_fire n w) = n"
  by (simp add: reconnect_fire_def Let_def split_beta connect_def split: option.splits)




subsection \<open>Scheduling a reconnect\<close>

lemma jitter_bounds:
  assumes "0 \<le> r" and "r < (1::real)"
  shows "0 \<le> \<lfloor>r * 300\<rfloor> \<and> \<lfloor>r * 300\<rfloor> \<le> 299"
proof -
  from assms have "0 \<le> r * 300" and "r * 300 < 300" by simp_all
  then have "0 \<le> \<lfloor>r * 300\<rfloor>" and "\<lfloor>r * 300\<rfloor> < 300"
    by (simp_all add: floor_less_iff)
  then show ?thesis by simp
qed

lemma scheduleReconnect_guarded:
  "reconnectTimer w \<noteq> None \<Longrightarrow> scheduleReconnect env reason w = w"
  by (simp add: scheduleReconnect_def)

lemma scheduleReconnect_exhausted:
  assumes "reconnectTimer w = None"
    and "reconnectMaxAttempts (options w) < int (reconnectAttempt w + 1)"
  shows "scheduleReconnect env reason w
       = emit (EvError (ReconnectExhausted (reconnectMaxAttempts (options w)) reason)) w"
  using assms by (simp add: scheduleReconnect_def Let_def)

lemma scheduleReconnect_schedules:
  assumes "reconnectTimer w = None"
    and "int (reconnectAttempt w + 1) \<le> reconnectMaxAttempts (options w)"
  shows "scheduleReconnect env reason w
       = w\<lparr>state := st_reconnecting,
           reconnectTimer := Some (next_handle w),
           timers := timers w @
             [(next_handle w,
               \<lparr>delay = Num (of_int (min (reconnectMaxDelayMs (options w))
                           (reconnectBaseDelayMs (options w) * 2 ^ reconnectAttempt w)
                         + \<lfloor>random env * 300\<rfloor>)),
                 callback = ReconnectFire (reconnectAttempt w + 1)\<rparr>)],
           next_handle := Suc (next_handle w),
           trace := trace w @
             map (\<lambda>l. Invoke l (EvReconnecting (reconnectAttempt w + 1)
                    (min (reconnectMaxDelayMs (options w))
                         (reconnectBaseDelayMs (options w) * 2 ^ reconnectAttempt w)
                     + \<lfloor>random env * 300\<rfloor>) reason))
               (listeners_of w ''reconnecting'')\<rparr>"
  using assms
  by (simp add: scheduleReconnect_def Let_def split_beta setTimer_def emit_def transitionTo_def
      listeners_of_def)








subsection \<open>Reconnection\<close>

text \<open>
  Claim C5 asks that the terminal error of exhausted reconnection is emitted exactly once.
  A reconnect attempt that fails before it opens reaches \<open>scheduleReconnect\<close> twice: from the
  close handler of the socket, and from the \<open>catch\<close> the reconnect timer hung on the promise
  of \<open>connect\<close>. The guard on \<open>reconnectTimer\<close> keeps the second from arming a second timer;
  when the attempts are exhausted no timer is armed, and both report the error. Here the
  client allows one attempt and has one \<open>error\<close> listener, 9.
\<close>

theorem reconnect_exhausted_reported_twice:
  "reconnectMaxAttempts (options ex_retrying) = 1 \<and> reconnectAttempt ex_retrying = 1
   \<and> state ex_retrying = st_connecting \<and> ws ex_retrying = Some 2
   \<and> filter is_exhausted (trace ex_retrying) = []
   \<and> filter is_exhausted (trace ex_exhausted)
       = [Invoke 9 (EvError (ReconnectExhausted 1 ''close:1006'')),
          Invoke 9 (EvError (ReconnectExhausted 1 ''connect_failed''))]
   \<and> filter is_exhausted (trace ex_exhausted_close_only)
       = [Invoke 9 (EvError (ReconnectExhausted 1 ''close:1006'')),
          Invoke 9 (EvError (ReconnectExhausted 1 ''connect_failed''))]
   \<and> timers ex_exhausted = [] \<and> reconnectTimer ex_exhausted = None
   \<and> state ex_exhausted = st_closed"
  by code_simp

subsection \<open>disconnect\<close>

text \<open>
  What holds of \<open>disconnect\<close> in every world: it marks the client as closed by the caller
  and disarms the reconnect timer and the heartbeat monitor. Without a socket, or with a
  socket already closed, it completes at once: the state is \<open>closed\<close>, every pending
  request is rejected with \<open>Disconnected\<close> and the table is empty; called twice on a client
  that never connected, it completes twice. Otherwise it waits for the close of the
  socket (or resumes at once when \<open>close\<close> throws), and the close handler, which sees
  \<open>manuallyClosed\<close>, rejects the pending requests and arms no timer.
\<close>

lemma disconnect_begin_fields:
  "manuallyClosed (disconnect_begin w)"
  "reconnectTimer (disconnect_begin w) = None"
  "heartbeatTimer (disconnect_begin w) = None"
  "state (disconnect_begin w) = st_closing"
  "ws (disconnect_begin w) = ws w"
  "sockets (disconnect_begin w) = sockets w"
  "pendingRequests (disconnect_begin w) = pendingRequests w"
  "trace (disconnect_begin w) = trace w"
  "jobs (disconnect_begin w) = jobs w"
  "awaiting (disconnect_begin w) = awaiting w"
  "next_handle (disconnect_begin w) = Suc (next_handle w)"
  by (simp_all add: disconnect_begin_def clearReconnectTimer_def stopHeartbeatMonitor_def
      clearTimer_def transitionTo_def split: option.splits)

lemma disconnect_begin_disarms:
  assumes "reconnectTimer w = Some t \<or> heartbeatTimer w = Some t"
  shows "map_of (timers (disconnect_begin w)) t = None"
proof -
  have a: "map_of (filter P (filter (\<lambda>e. fst e \<noteq> t) xs)) t = None"
    for P and xs :: "(nat \<times> Timer) list"
    by (induction xs) auto
  have b: "map_of (filter (\<lambda>e. fst e \<noteq> t) xs) t = None" for xs :: "(nat \<times> Timer) list"
    by (induction xs) auto
  show ?thesis
    using assms
    by (auto simp add: disconnect_begin_def clearReconnectTimer_def stopHeartbeatMonitor_def
        clearTimer_def transitionTo_def a b simp del: filter_filter split: option.splits)
qed

lemma disconnect_split:
  "disconnect env code0 reason0 w =
     (let d = next_handle w; w4 = disconnect_begin w in
      case ws w4 of
        None \<Rightarrow>
          effect (DisconnectResolved d) (rejectAllPending Disconnected (transitionTo st_closed w4))
      | Some s \<Rightarrow>
          if readyState_of w4 s = WS_CLOSED
          then effect (DisconnectResolved d)
                 (rejectAllPending Disconnected (transitionTo st_closed (w4\<lparr>ws := None\<rparr>)))
          else
            (let w5 = update_socket s (\<lambda>sk. sk\<lparr>once_close := once_close sk @ [d]\<rparr>)
                        (w4\<lparr>awaiting := awaiting w4 @ [d]\<rparr>);
                 r = ws_close env s (case code0 of None \<Rightarrow> 1000 | Some c \<Rightarrow> c)
                       (case reason0 of None \<Rightarrow> ''manual disconnect'' | Some r \<Rightarrow> r) w5
             in if fst r then resolve_waiter d (snd r) else snd r))"
  unfolding disconnect_def disconnect_begin_def Let_def split_beta by (rule refl)

lemma disconnect_flags:
  "manuallyClosed (disconnect env code0 reason0 w)"
  "reconnectTimer (disconnect env code0 reason0 w) = None"
  "heartbeatTimer (disconnect env code0 reason0 w) = None"
  by (simp_all add: disconnect_split Let_def disconnect_begin_fields transitionTo_def
      effect_def rejectAllPending_eq update_socket_def ws_close_def resolve_waiter_def
      enqueue_def split: option.splits)

lemma disconnect_disarms:
  assumes "reconnectTimer w = Some t \<or> heartbeatTimer w = Some t"
  shows "map_of (timers (disconnect env code0 reason0 w)) t = None"
proof -
  have f: "map_of (filter P xs) t = None" if "map_of xs t = None"
    for P and xs :: "(nat \<times> Timer) list"
    using that by (induction xs) (auto split: if_splits)
  note b = disconnect_begin_disarms [OF assms]
  show ?thesis
    using b f [OF b]
    by (simp add: disconnect_split Let_def disconnect_begin_fields transitionTo_def
        effect_def rejectAllPending_eq update_socket_def ws_close_def resolve_waiter_def
        enqueue_def split: option.splits)
qed

lemma disconnect_without_socket:
  assumes "ws w = None \<or> (\<exists>s. ws w = Some s \<and> readyState_of w s = WS_CLOSED)"
  shows "state (disconnect env code0 reason0 w) = st_closed"
    and "ws (disconnect env code0 reason0 w) = None"
    and "pendingRequests (disconnect env code0 reason0 w) = []"
    and "trace (disconnect env code0 reason0 w)
       = trace w @ map (\<lambda>entry. Reject (promise (snd entry)) Disconnected) (pendingRequests w)
         @ [DisconnectResolved (next_handle w)]"
proof -
  have r: "readyState_of (disconnect_begin w) s = readyState_of w s" for s
    by (simp add: readyState_of_def socket_of_def disconnect_begin_fields)
  show "state (disconnect env code0 reason0 w) = st_closed"
    and "ws (disconnect env code0 reason0 w) = None"
    and "pendingRequests (disconnect env code0 reason0 w) = []"
    and "trace (disconnect env code0 reason0 w)
       = trace w @ map (\<lambda>entry. Reject (promise (snd entry)) Disconnected) (pendingRequests w)
         @ [DisconnectResolved (next_handle w)]"
    using assms
    by (auto simp add: disconnect_split Let_def disconnect_begin_fields r transitionTo_def
        effect_def rejectAllPending_eq)
qed

lemma disconnect_waits_for_close:
  assumes "ws w = Some s" and "readyState_of w s \<noteq> WS_CLOSED" and "\<not> close_throws env"
  shows "state (disconnect env code0 reason0 w) = st_closing"
    and "awaiting (disconnect env code0 reason0 w) = awaiting w @ [next_handle w]"
    and "jobs (disconnect env code0 reason0 w) = jobs w"
    and "pendingRequests (disconnect env code0 reason0 w) = pendingRequests w"
proof -
  have r: "readyState_of (disconnect_begin w) s = readyState_of w s"
    by (simp add: readyState_of_def socket_of_def disconnect_begin_fields)
  show "state (disconnect env code0 reason0 w) = st_closing"
    and "awaiting (disconnect env code0 reason0 w) = awaiting w @ [next_handle w]"
    and "jobs (disconnect env code0 reason0 w) = jobs w"
    and "pendingRequests (disconnect env code0 reason0 w) = pendingRequests w"
    using assms
    by (simp_all add: disconnect_split Let_def disconnect_begin_fields r effect_def
        update_socket_def ws_close_def)
qed

lemma handleSocketClose_after_disconnect:
  assumes "manuallyClosed w"
  shows "state (handleSocketClose env code reason w) = st_closed"
    and "reconnectTimer (handleSocketClose env code reason w) = reconnectTimer w"
    and "pendingRequests (handleSocketClose env code reason w) = []"
    and "next_handle (handleSocketClose env code reason w) = next_handle w"
  using assms
  by (simp_all add: handleSocketClose_def Let_def stopHeartbeatMonitor_def clearTimer_def
      transitionTo_def emit_def rejectAllPending_eq split: option.splits)

lemma disconnect_twice_never_connected:
  "state (run [(ex_env, [Call_disconnect None None])] (new_client ex_options)) = st_closed
   \<and> state (run [(ex_env, [Call_disconnect None None]), (ex_env, [Call_disconnect None None])]
        (new_client ex_options)) = st_closed
   \<and> trace (run [(ex_env, [Call_disconnect None None]), (ex_env, [Call_disconnect None None])]
        (new_client ex_options)) = [DisconnectResolved 0, DisconnectResolved 1]"
  by code_simp

text \<open>
  Claim C4 asks that \<open>disconnect\<close> suppresses automatic reconnection in every case and
  leaves the state \<open>closed\<close>. The close handler honours \<open>manuallyClosed\<close>; the \<open>catch\<close> of the
  reconnect timer does not. With a reconnect attempt in flight, \<open>disconnect\<close> closes the
  connecting socket and completes (call 3 below), the promise of \<open>connect\<close> is rejected, and
  the \<open>catch\<close> arms a new reconnect timer: the state is \<open>reconnecting\<close>, and when the timer
  fires the client connects again.
\<close>

theorem disconnect_during_reconnect_attempt:
  "state ex_retrying_five = st_connecting \<and> ws ex_retrying_five = Some 2
   \<and> readyState_of ex_retrying_five 2 = WS_CONNECTING
   \<and> manuallyClosed ex_disconnected
   \<and> filter (\<lambda>e. e = DisconnectResolved 3) (trace ex_disconnected) = [DisconnectResolved 3]
   \<and> state ex_disconnected = st_reconnecting
   \<and> reconnectTimer ex_disconnected = Some 4
   \<and> timers ex_disconnected = [(4, \<lparr>delay = Num 2000, callback = ReconnectFire 2\<rparr>)]
   \<and> state ex_back = st_connecting \<and> ws ex_back = Some 5
   \<and> manuallyClosed ex_back = False
   \<and> trace ex_back = trace ex_disconnected @ [WsNew 5]"
  by code_simp

subsection \<open>Generated tokens\<close>










subsection \<open>A caller-supplied echo\<close>













end
